theory Spec2Isabelle
  imports Complex_Main "HOL-Library.Sublist" "HOL-Library.Char_ord" "HOL-Library.List_Lexorder"
    "HOL-Library.Multiset"
begin

section \<open>Numeric cells\<close>

text \<open>
  The backend works on pandas columns of floating-point numbers. A cell is modelled as a
  real number, one of the two infinities, or NaN (which pandas also uses for a missing
  value). Rounding and overflow are not modelled; the special values are, because the
  code's behaviour on missing values and on division by zero depends on them.
\<close>

datatype num = NaN | NInf | Fin real | PInf

text \<open>Comparison as Python and numpy do it: every comparison with NaN is false.\<close>

fun num_le :: "num \<Rightarrow> num \<Rightarrow> bool" where
  "num_le NaN b = False"
| "num_le a NaN = False"
| "num_le NInf b = True"
| "num_le a PInf = True"
| "num_le (Fin a) (Fin b) = (a \<le> b)"
| "num_le a b = False"

fun num_lt :: "num \<Rightarrow> num \<Rightarrow> bool" where
  "num_lt NaN b = False"
| "num_lt a NaN = False"
| "num_lt NInf NInf = False"
| "num_lt NInf b = True"
| "num_lt PInf b = False"
| "num_lt a PInf = True"
| "num_lt (Fin a) (Fin b) = (a < b)"
| "num_lt a b = False"

definition isna :: "num \<Rightarrow> bool" where
  "isna x = (x = NaN)"

text \<open>
  Arithmetic on cells follows IEEE 754 on the special values. A zero denominator is the
  positive zero that an addition yields.
\<close>

fun num_add :: "num \<Rightarrow> num \<Rightarrow> num" where
  "num_add NaN b = NaN"
| "num_add a NaN = NaN"
| "num_add (Fin a) (Fin b) = Fin (a + b)"
| "num_add PInf NInf = NaN"
| "num_add NInf PInf = NaN"
| "num_add PInf b = PInf"
| "num_add NInf b = NInf"
| "num_add a b = b"

fun num_neg :: "num \<Rightarrow> num" where
  "num_neg NaN = NaN"
| "num_neg NInf = PInf"
| "num_neg PInf = NInf"
| "num_neg (Fin a) = Fin (- a)"

definition num_sub :: "num \<Rightarrow> num \<Rightarrow> num" where
  "num_sub a b = num_add a (num_neg b)"

fun num_abs :: "num \<Rightarrow> num" where
  "num_abs NaN = NaN"
| "num_abs NInf = PInf"
| "num_abs PInf = PInf"
| "num_abs (Fin a) = Fin \<bar>a\<bar>"

fun num_sign :: "num \<Rightarrow> int" where
  "num_sign NaN = 0"
| "num_sign NInf = - 1"
| "num_sign PInf = 1"
| "num_sign (Fin a) = (if a < 0 then - 1 else if a = 0 then 0 else 1)"

definition signed_inf :: "int \<Rightarrow> num" where
  "signed_inf s = (if s = 0 then NaN else if 0 < s then PInf else NInf)"

fun num_mul :: "num \<Rightarrow> num \<Rightarrow> num" where
  "num_mul NaN b = NaN"
| "num_mul a NaN = NaN"
| "num_mul (Fin a) (Fin b) = Fin (a * b)"
| "num_mul a b = signed_inf (num_sign a * num_sign b)"

fun num_div :: "num \<Rightarrow> num \<Rightarrow> num" where
  "num_div NaN b = NaN"
| "num_div a NaN = NaN"
| "num_div (Fin a) (Fin b) = (if b = 0 then signed_inf (num_sign (Fin a)) else Fin (a / b))"
| "num_div (Fin a) b = Fin 0"
| "num_div a (Fin b) = signed_inf (num_sign a * (if b < 0 then - 1 else 1))"
| "num_div a b = NaN"

fun num_half :: "num \<Rightarrow> num" where
  "num_half (Fin a) = Fin (a / 2)"
| "num_half a = a"

text \<open>\<^verbatim>\<open>x ** 2\<close> and \<^verbatim>\<open>np.log1p(x)\<close>.\<close>

fun num_square :: "num \<Rightarrow> num" where
  "num_square NaN = NaN"
| "num_square (Fin a) = Fin (a ^ 2)"
| "num_square a = PInf"

fun num_log1p :: "num \<Rightarrow> num" where
  "num_log1p NaN = NaN"
| "num_log1p NInf = NaN"
| "num_log1p PInf = PInf"
| "num_log1p (Fin a) = (if - 1 < a then Fin (ln (1 + a)) else if a = - 1 then NInf else NaN)"

text \<open>
  \<^verbatim>\<open>Series.median()\<close> skips NaN: the middle of the sorted remaining values, the mean of
  the two middle ones when their number is even, and NaN when nothing remains.
\<close>

fun insort_num :: "num \<Rightarrow> num list \<Rightarrow> num list" where
  "insort_num x [] = [x]"
| "insort_num x (y # ys) = (if num_le x y then x # y # ys else y # insort_num x ys)"

definition sort_num :: "num list \<Rightarrow> num list" where
  "sort_num xs = foldr insort_num xs []"

definition median :: "num list \<Rightarrow> num" where
  "median xs =
     (let vs = sort_num (filter (\<lambda>x. \<not> isna x) xs); n = length vs
      in if n = 0 then NaN
         else if odd n then vs ! (n div 2)
         else num_half (num_add (vs ! (n div 2 - 1)) (vs ! (n div 2))))"

definition fillna :: "num \<Rightarrow> num list \<Rightarrow> num list" where
  "fillna v xs = map (\<lambda>x. if isna x then v else x) xs"


section \<open>Classification of a WQI value\<close>

text \<open>
  \<^verbatim>\<open>classify_wqi\<close> of \<^verbatim>\<open>app.py\<close>: a chain of \<^verbatim>\<open><=\<close> tests against 25, 50, 75 and 100.
\<close>

definition classify_wqi :: "num \<Rightarrow> string" where
  "classify_wqi wqi =
     (if num_le wqi (Fin 25) then ''Excellent''
      else if num_le wqi (Fin 50) then ''Good''
      else if num_le wqi (Fin 75) then ''Poor''
      else if num_le wqi (Fin 100) then ''Very Poor''
      else ''Unsuitable for Drinking'')"

section \<open>Exceptions\<close>

text \<open>
  Exceptions are values. \<open>MissingColumns missing available\<close> is the \<^verbatim>\<open>ValueError\<close> that
  \<^verbatim>\<open>preprocess_dataframe\<close> raises with the message
  \<^verbatim>\<open>Missing required columns: {missing}. Available: {available}\<close>; \<open>LibraryError\<close> is
  an exception raised inside pandas, scikit-learn, joblib or the file system, with its
  message.
\<close>

datatype py_error =
    IndexError
  | KeyError string
  | AttributeError string
  | TypeError string
  | ValueError string
  | MissingColumns "string list" "string list"
  | LibraryError string

definition and_then :: "'e + 'a \<Rightarrow> ('a \<Rightarrow> 'e + 'b) \<Rightarrow> 'e + 'b" where
  "and_then m f = (case m of Inl e \<Rightarrow> Inl e | Inr x \<Rightarrow> f x)"

section \<open>Result records and the selection of the best model\<close>

text \<open>
  One dictionary per model is appended to \<^verbatim>\<open>results\<close> in \<^verbatim>\<open>train_models\<close>. The held-out
  RMSE is \<^verbatim>\<open>math.sqrt\<close> of a mean squared error, a number that is never NaN, so it is a
  real here; the metrics that can be NaN are cells.
\<close>

record result_record =
  model_name :: string
  cv_rmse :: num
  test_r2 :: num
  test_mae :: num
  test_rmse :: real
  test_mape :: num
  best_params :: "(string \<times> string) list"
  model_file :: string
  feature_importance :: "(string list \<times> num list) option"


text \<open>
  \<^verbatim>\<open>results.sort(key=lambda x: x['test_rmse'])\<close>: Python's list sort is stable, and so is
  \<^const>\<open>sort_key\<close>. \<^verbatim>\<open>best_model = results[0]\<close> raises IndexError on an empty list.
\<close>

definition sort_results :: "result_record list \<Rightarrow> result_record list" where
  "sort_results results = sort_key test_rmse results"

definition best_model :: "result_record list \<Rightarrow> py_error + result_record" where
  "best_model results =
     (case sort_results results of [] \<Rightarrow> Inl IndexError | r # _ \<Rightarrow> Inr r)"

text \<open>The registry: the keys of the dictionary \<^verbatim>\<open>build_models\<close> returns, in insertion order.\<close>

definition model_names :: "string list" where
  "model_names = [''Ridge'', ''SVR'', ''RandomForest'', ''GradientBoosting'', ''XGBoost'']"

section \<open>Data frames\<close>

text \<open>
  A data frame is the list of its labelled columns, in order. A column read from a CSV
  file is numeric (\<^verbatim>\<open>int64\<close> or \<^verbatim>\<open>float64\<close>) or of dtype \<^verbatim>\<open>object\<close>. Labels may repeat:
  pandas allows it, and renaming can produce it. \<^verbatim>\<open>df[col]\<close> on a repeated label is a
  frame, not a series, so \<open>getitem\<close> returns every column that carries the label.
\<close>

datatype column = NumCol "num list" | ObjCol "string option list"

type_synonym table = "(string \<times> column) list"

definition is_numeric :: "column \<Rightarrow> bool" where
  "is_numeric c = (case c of NumCol xs \<Rightarrow> True | ObjCol xs \<Rightarrow> False)"

definition columns :: "table \<Rightarrow> string list" where
  "columns df = map fst df"

definition getitem :: "table \<Rightarrow> string \<Rightarrow> column list" where
  "getitem df col = map snd (filter (\<lambda>(n, c). n = col) df)"

definition drop_column :: "string \<Rightarrow> table \<Rightarrow> table" where
  "drop_column col df = filter (\<lambda>(n, c). n \<noteq> col) df"

text \<open>
  \<^verbatim>\<open>df[name] = series\<close>: a new label is appended as the last column, an existing one
  keeps its place.
\<close>

definition setitem :: "table \<Rightarrow> string \<Rightarrow> column \<Rightarrow> table" where
  "setitem df name col =
     (if name \<in> set (columns df)
      then map (\<lambda>(n, c). if n = name then (n, col) else (n, c)) df
      else df @ [(name, col)])"

section \<open>Feature engineering\<close>

definition FEATURES :: "string list" where
  "FEATURES = [''Temp'', ''pH'', ''Conductivity'', ''Nitrate'', ''Fecal_Coliform'',
               ''Total_Coliform'', ''TDS'', ''Fluoride'']"

definition TARGET :: string where
  "TARGET = ''WQI''"

text \<open>
  \<^verbatim>\<open>RENAME_MAP\<close>, in the order of the dictionary. Two keys hold a character outside ASCII,
  written here as its UTF-8 bytes: the superscript zero of the temperature unit and the
  Greek mu of the conductivity unit.
\<close>

definition RENAME_MAP :: "(string \<times> string) list" where
  "RENAME_MAP =
     [(''Temperature '' @ [CHR 0xE2, CHR 0x81, CHR 0xB0] @ ''C'', ''Temp''),
      (''Temperature'', ''Temp''),
      (''Conductivity ('' @ [CHR 0xCE, CHR 0xBC] @ ''mhos/cm)'', ''Conductivity''),
      (''Nitrate N (mg/L)'', ''Nitrate''),
      (''Nitrate'', ''Nitrate''),
      (''Faecal Coliform (MPN/100ml)'', ''Fecal_Coliform''),
      (''Fecal Coliform (MPN/100ml)'', ''Fecal_Coliform''),
      (''Total Coliform (MPN/100ml)'', ''Total_Coliform''),
      (''Total Dissolved Solids (mg/L)'', ''TDS''),
      (''Fluoride (mg/L)'', ''Fluoride'')]"

definition cols_to_drop :: "string list" where
  "cols_to_drop = [''State Name'', ''State'', ''Location'', ''Station'', ''Date'',
                   ''Monitoring Location'', ''Station Code'', ''District'', ''Block'',
                   ''WQI_Classification'', ''WQI_Class'', ''WQI_Class_Encoded'']"

text \<open>\<^verbatim>\<open>df.rename(columns=present_map)\<close> with the keys of the map that are labels of the frame.\<close>

definition rename_columns :: "table \<Rightarrow> table" where
  "rename_columns df =
     (let present_map = filter (\<lambda>(k, v). k \<in> set (columns df)) RENAME_MAP
      in map (\<lambda>(n, c). (case map_of present_map n of Some v \<Rightarrow> v | None \<Rightarrow> n, c)) df)"

text \<open>The loop over \<^verbatim>\<open>cols_to_drop\<close>.\<close>

definition drop_listed :: "table \<Rightarrow> table" where
  "drop_listed df =
     foldl (\<lambda>d col. if col \<in> set (columns d) then drop_column col d else d) df cols_to_drop"

text \<open>
  The loop over \<^verbatim>\<open>df.columns\<close> that drops the columns of dtype \<^verbatim>\<open>object\<close>. The labels
  iterated over are those of the frame before the loop; the frame is rebound at each
  drop. On a repeated label \<^verbatim>\<open>df[col]\<close> is a frame, which has no attribute \<^verbatim>\<open>dtype\<close>.
\<close>

fun drop_non_numeric :: "string list \<Rightarrow> table \<Rightarrow> py_error + table" where
  "drop_non_numeric [] df = Inr df"
| "drop_non_numeric (col # cols) df =
     (case getitem df col of
        [] \<Rightarrow> Inl (KeyError col)
      | [NumCol xs] \<Rightarrow> drop_non_numeric cols df
      | [ObjCol xs] \<Rightarrow> drop_non_numeric cols (drop_column col df)
      | _ \<Rightarrow> Inl (AttributeError ''dtype''))"

text \<open>Renaming and the two rounds of drops, up to the check for required columns.\<close>

definition rename_and_drop :: "table \<Rightarrow> py_error + table" where
  "rename_and_drop df =
     (let d = drop_listed (rename_columns df) in drop_non_numeric (columns d) d)"

definition missing_from :: "string list \<Rightarrow> table \<Rightarrow> string list" where
  "missing_from required df = filter (\<lambda>c. c \<notin> set (columns df)) required"

definition check_required :: "bool \<Rightarrow> table \<Rightarrow> py_error + table" where
  "check_required is_train df =
     (let missing_cols = missing_from FEATURES df
      in if is_train
         then (let missing_cols_with_target = missing_from (FEATURES @ [TARGET]) df
               in if missing_cols_with_target \<noteq> []
                  then Inl (MissingColumns missing_cols_with_target (columns df))
                  else Inr df)
         else if missing_cols \<noteq> [] then Inl (MissingColumns missing_cols (columns df))
         else Inr df)"

text \<open>
  \<^verbatim>\<open>if df[col].isna().any(): df[col].fillna(df[col].median(), inplace=True)\<close>. The fill
  is a chained in-place call on the selected series. It is modelled as pandas before 3.0
  runs it, where the selected series shares its data with the frame and the fill reaches
  the frame. Under copy-on-write (pandas 3.0 and later) the fill changes a temporary only
  and the frame stays as it is; that behaviour is outside this model.
  A column of strings has no median (TypeError); on a repeated label the truth value of
  \<^verbatim>\<open>isna().any()\<close> is ambiguous (ValueError).
\<close>

definition impute_column :: "string \<Rightarrow> table \<Rightarrow> py_error + table" where
  "impute_column col df =
     (case getitem df col of
        [] \<Rightarrow> Inl (KeyError col)
      | [NumCol xs] \<Rightarrow>
          if list_ex isna xs then Inr (setitem df col (NumCol (fillna (median xs) xs)))
          else Inr df
      | [ObjCol xs] \<Rightarrow>
          if list_ex (\<lambda>x. x = None) xs then Inl (TypeError ''median'') else Inr df
      | _ \<Rightarrow> Inl (ValueError ''The truth value of a Series is ambiguous''))"

fun impute_features :: "string list \<Rightarrow> table \<Rightarrow> py_error + table" where
  "impute_features [] df = Inr df"
| "impute_features (col # cols) df =
     (if col \<in> set (columns df)
      then and_then (impute_column col df) (impute_features cols)
      else impute_features cols df)"

definition impute_target :: "bool \<Rightarrow> table \<Rightarrow> py_error + table" where
  "impute_target is_train df =
     (if is_train \<and> TARGET \<in> set (columns df) then impute_column TARGET df else Inr df)"

text \<open>Element-wise arithmetic on series; on anything but numeric series it raises.\<close>

definition series :: "table \<Rightarrow> string \<Rightarrow> py_error + num list" where
  "series df col =
     (case getitem df col of
        [] \<Rightarrow> Inl (KeyError col)
      | [NumCol xs] \<Rightarrow> Inr xs
      | [ObjCol xs] \<Rightarrow> Inl (TypeError ''unsupported operand'')
      | _ \<Rightarrow> Inl (ValueError ''Cannot set a DataFrame with multiple columns''))"

definition add_binary ::
  "string \<Rightarrow> (num \<Rightarrow> num \<Rightarrow> num) \<Rightarrow> string \<Rightarrow> string \<Rightarrow> table \<Rightarrow> py_error + table" where
  "add_binary name f a b df =
     (if list_all (\<lambda>col. col \<in> set (columns df)) [a, b]
      then and_then (series df a) (\<lambda>xs. and_then (series df b) (\<lambda>ys.
             Inr (setitem df name (NumCol (map2 f xs ys)))))
      else Inr df)"

definition add_unary :: "string \<Rightarrow> (num \<Rightarrow> num) \<Rightarrow> string \<Rightarrow> table \<Rightarrow> py_error + table" where
  "add_unary name f a df =
     (if a \<in> set (columns df)
      then and_then (series df a) (\<lambda>xs. Inr (setitem df name (NumCol (map f xs))))
      else Inr df)"

text \<open>The three loops of the logarithms, over Fecal_Coliform, Total_Coliform and TDS.\<close>

fun add_logs :: "string list \<Rightarrow> table \<Rightarrow> py_error + table" where
  "add_logs [] df = Inr df"
| "add_logs (col # cols) df = and_then (add_unary (col @ ''_log'') num_log1p col df) (add_logs cols)"

text \<open>The derived features, in the order of the source (steps 2 to 4 of the function).\<close>

definition add_derived :: "table \<Rightarrow> py_error + table" where
  "add_derived df =
     and_then (add_binary ''pH_Temp_interaction'' num_mul ''pH'' ''Temp'' df) (\<lambda>d1.
     and_then (add_binary ''TDS_Conductivity_ratio''
                 (\<lambda>x y. num_div x (num_add y (Fin 1))) ''TDS'' ''Conductivity'' d1) (\<lambda>d2.
     and_then (add_binary ''Coliform_ratio''
                 (\<lambda>x y. num_div x (num_add y (Fin 1))) ''Fecal_Coliform'' ''Total_Coliform'' d2) (\<lambda>d3.
     and_then (add_logs [''Fecal_Coliform'', ''Total_Coliform'', ''TDS''] d3) (\<lambda>d4.
     and_then (add_unary ''pH_squared'' num_square ''pH'' d4) (\<lambda>d5.
     add_unary ''Temp_squared'' num_square ''Temp'' d5)))))"

definition preprocess_dataframe :: "table \<Rightarrow> bool \<Rightarrow> py_error + table" where
  "preprocess_dataframe df is_train =
     and_then (rename_and_drop df) (\<lambda>d1.
     and_then (check_required is_train d1) (\<lambda>d2.
     and_then (impute_features FEATURES d2) (\<lambda>d3.
     and_then (impute_target is_train d3) add_derived)))"

section \<open>The percentage error of a model\<close>

text \<open>
  \<^verbatim>\<open>np.mean\<close> of an empty array is NaN. Python's \<^verbatim>\<open>min(a, b)\<close> returns \<^verbatim>\<open>b\<close> only when
  \<^verbatim>\<open>b < a\<close>, so it returns a NaN first argument unchanged.
\<close>

definition np_mean :: "num list \<Rightarrow> num" where
  "np_mean xs =
     (if xs = [] then NaN else num_div (foldl num_add (Fin 0) xs) (Fin (real (length xs))))"

definition py_min :: "num \<Rightarrow> num \<Rightarrow> num" where
  "py_min a b = (if num_lt b a then b else a)"

text \<open>
  The computation of \<^verbatim>\<open>mape\<close> in the training loop, on the pairs of an actual and a
  predicted value of the test set.
\<close>

definition mape :: "(num \<times> num) list \<Rightarrow> num" where
  "mape ps =
     (let epsilon = Fin (1 / 10 ^ 10);
          m = num_mul
                (np_mean (map (\<lambda>(y, p). num_abs (num_div (num_sub y p) (num_add y epsilon))) ps))
                (Fin 100)
      in py_min m (Fin 100))"

section \<open>The server: state, files and the outside world\<close>

record training_state =
  is_training :: bool
  progress :: int
  current_model :: string
  models_trained :: "string list"

text \<open>
  The training summary written as JSON; \<open>summary_models\<close> is its key
  \<^verbatim>\<open>models_trained\<close> and \<open>summary_best_model\<close> its key \<^verbatim>\<open>best_model\<close>.
\<close>

record summary =
  timestamp :: string
  dataset_file :: string
  dataset_shape :: "nat \<times> nat"
  features_used :: "string list"
  train_size :: nat
  test_size :: nat
  summary_models :: "result_record list"
  summary_best_model :: string

record statistics =
  mean_wqi :: num
  median_wqi :: num
  min_wqi :: num
  max_wqi :: num
  std_wqi :: num

record prediction_metadata =
  prediction_timestamp :: string
  model_used :: string
  total_predictions :: nat
  prediction_statistics :: statistics
  class_distribution :: "string \<rightharpoonup> nat"
  output_file :: string

text \<open>
  A fitted pipeline is modelled by what \<^verbatim>\<open>predict\<close> does with it: a function from a frame
  of features to the predictions, or to the exception it raises.
\<close>

type_synonym pipeline = "table \<Rightarrow> py_error + num list"

datatype content =
    Directory
  | Pickle pipeline
  | SummaryJson summary
  | HistoryJson "summary list"
  | PredictionJson prediction_metadata
  | PredictionCsv "num list" "string list"
  | OtherFile

type_synonym folder = "(string \<times> content) list"

record server =
  status :: training_state
  upload_folder :: "string list"
  model_folder :: folder
  results_folder :: folder

text \<open>The four parts of the train/test split.\<close>

record split_data =
  X_train :: table
  X_test :: table
  y_train :: "num list"
  y_test :: "num list"

text \<open>What the search and the fit of one model leave behind.\<close>

record fitted =
  best_pipe :: pipeline
  best_score :: num
  chosen_params :: "(string \<times> string) list"
  importances :: "num list option"

text \<open>
  Everything the handlers take from outside the program: the clock, werkzeug's
  \<^verbatim>\<open>secure_filename\<close>, whether \<^verbatim>\<open>os.remove\<close> raises on a file of a folder, and the
  scikit-learn and numpy calls, each of which returns a value or raises.
\<close>

record environment =
  now :: string
  secure_filename :: "string \<Rightarrow> string"
  remove_fails :: "string \<Rightarrow> string \<Rightarrow> bool"
  train_test_split :: "table \<Rightarrow> num list \<Rightarrow> py_error + split_data"
  fit :: "string \<Rightarrow> split_data \<Rightarrow> py_error + fitted"
  r2_score :: "num list \<Rightarrow> num list \<Rightarrow> py_error + num"
  mean_absolute_error :: "num list \<Rightarrow> num list \<Rightarrow> py_error + num"
  mean_squared_error :: "num list \<Rightarrow> num list \<Rightarrow> py_error + real"
  np_statistics :: "num list \<Rightarrow> py_error + statistics"

text \<open>An uploaded file: its name, and what \<^verbatim>\<open>pd.read_csv\<close> makes of it.\<close>

record upload =
  filename :: string
  parsed :: "py_error + table"

record predict_request =
  uploaded :: "upload option"
  requested_model :: "string option"

record prediction_result =
  result_model_used :: string
  result_total :: nat
  result_statistics :: statistics
  result_class_distribution :: "string \<rightharpoonup> nat"
  sample_predictions :: "(num \<times> string) list"
  result_output_file :: string

text \<open>
  The JSON responses. A 500 response carries \<^verbatim>\<open>str(e)\<close> and the traceback of the
  exception caught, and nothing else.
\<close>

datatype response =
    BadRequest string
  | NotFound string
  | ServerError py_error
  | TrainOk summary "result_record list" string
  | PredictOk prediction_result

section \<open>Files\<close>

definition lower_char :: "char \<Rightarrow> char" where
  "lower_char c =
     (if CHR ''A'' \<le> c \<and> c \<le> CHR ''Z'' then char_of (of_char c + (32 :: nat)) else c)"

text \<open>\<^verbatim>\<open>'.' in filename and filename.rsplit('.', 1)[1].lower() in ALLOWED_EXTENSIONS\<close>.\<close>

definition allowed_file :: "string \<Rightarrow> bool" where
  "allowed_file name =
     (CHR ''.'' \<in> set name
      \<and> map lower_char (rev (takeWhile (\<lambda>c. c \<noteq> CHR ''.'') (rev name))) \<in> {''csv''})"

text \<open>
  The loop that clears a folder: every entry that is a regular file is removed, unless
  \<^verbatim>\<open>os.remove\<close> raises, which is printed and passed over.
\<close>

fun purge_folder :: "(string \<Rightarrow> bool) \<Rightarrow> folder \<Rightarrow> folder" where
  "purge_folder fails [] = []"
| "purge_folder fails ((name, c) # entries) =
     (case c of
        Directory \<Rightarrow> (name, c) # purge_folder fails entries
      | _ \<Rightarrow> if fails name then (name, c) # purge_folder fails entries
             else purge_folder fails entries)"

text \<open>Opening a path for writing: a directory of that name makes \<^verbatim>\<open>open\<close> raise.\<close>

definition write_file :: "folder \<Rightarrow> string \<Rightarrow> content \<Rightarrow> py_error + folder" where
  "write_file dir name c =
     (case map_of dir name of
        None \<Rightarrow> Inr (dir @ [(name, c)])
      | Some Directory \<Rightarrow> Inl (LibraryError ''IsADirectoryError'')
      | Some old \<Rightarrow> Inr (map (\<lambda>(n, x). if n = name then (n, c) else (n, x)) dir))"

text \<open>\<^verbatim>\<open>append_to_training_history\<close> and \<^verbatim>\<open>save_latest_training\<close> of \<^verbatim>\<open>utils.py\<close>.\<close>

definition append_to_training_history :: "folder \<Rightarrow> summary \<Rightarrow> py_error + folder" where
  "append_to_training_history dir training_data =
     and_then
       (case map_of dir ''training_history.json'' of
          None \<Rightarrow> Inr []
        | Some (HistoryJson h) \<Rightarrow> Inr h
        | Some other \<Rightarrow> Inl (LibraryError ''training_history.json''))
       (\<lambda>history.
          let history = history @ [training_data];
              history = drop (length history - 50) history
          in write_file dir ''training_history.json'' (HistoryJson history))"

definition save_latest_training :: "folder \<Rightarrow> summary \<Rightarrow> py_error + folder" where
  "save_latest_training dir training_data =
     and_then (write_file dir ''latest_training.json'' (SummaryJson training_data))
       (\<lambda>dir. append_to_training_history dir training_data)"

definition save_prediction_metadata :: "folder \<Rightarrow> prediction_metadata \<Rightarrow> py_error + folder" where
  "save_prediction_metadata dir prediction_data =
     write_file dir ''latest_prediction.json'' (PredictionJson prediction_data)"

section \<open>The training handler\<close>

definition col_length :: "column \<Rightarrow> nat" where
  "col_length c = (case c of NumCol xs \<Rightarrow> length xs | ObjCol xs \<Rightarrow> length xs)"

definition nrows :: "table \<Rightarrow> nat" where
  "nrows df = (case df of [] \<Rightarrow> 0 | (n, c) # rest \<Rightarrow> col_length c)"

text \<open>\<^verbatim>\<open>df.select_dtypes(include=[np.number])\<close>.\<close>

definition select_numeric :: "table \<Rightarrow> table" where
  "select_numeric df = filter (\<lambda>(n, c). is_numeric c) df"

definition training_feature_cols :: "table \<Rightarrow> string list" where
  "training_feature_cols numeric_df =
     filter (\<lambda>col. col \<noteq> TARGET
                    \<and> col \<notin> set [''WQI_Class'', ''WQI_Class_Encoded'', ''WQI_Classification''])
       (columns numeric_df)"

text \<open>
  \<^verbatim>\<open>df[cols]\<close> for a list of labels taken from the frame itself: the columns with these
  labels. Labels are distinct wherever the handlers come to this point.
\<close>

definition select_columns :: "table \<Rightarrow> string list \<Rightarrow> table" where
  "select_columns df cols = filter (\<lambda>(n, c). n \<in> set cols) df"

text \<open>\<^verbatim>\<open>~(X.isna().any(axis=1) | y.isna())\<close> and the selection of rows by that mask.\<close>

definition cell_isna :: "column \<Rightarrow> nat \<Rightarrow> bool" where
  "cell_isna c i = (case c of NumCol xs \<Rightarrow> isna (xs ! i) | ObjCol xs \<Rightarrow> xs ! i = None)"

definition valid_indices :: "table \<Rightarrow> num list \<Rightarrow> bool list" where
  "valid_indices X y =
     map (\<lambda>i. \<not> (list_ex (\<lambda>(n, c). cell_isna c i) X \<or> isna (y ! i))) [0..<length y]"

definition take_rows :: "bool list \<Rightarrow> 'a list \<Rightarrow> 'a list" where
  "take_rows keep xs = map snd (filter fst (zip keep xs))"

definition take_rows_col :: "bool list \<Rightarrow> column \<Rightarrow> column" where
  "take_rows_col keep c =
     (case c of NumCol xs \<Rightarrow> NumCol (take_rows keep xs) | ObjCol xs \<Rightarrow> ObjCol (take_rows keep xs))"

definition take_rows_table :: "bool list \<Rightarrow> table \<Rightarrow> table" where
  "take_rows_table keep df = map (\<lambda>(n, c). (n, take_rows_col keep c)) df"

text \<open>\<^verbatim>\<open>math.sqrt\<close> raises on a negative number.\<close>

definition math_sqrt :: "real \<Rightarrow> py_error + real" where
  "math_sqrt x = (if x < 0 then Inl (ValueError ''math domain error'') else Inr (sqrt x))"

text \<open>
  One pass of the loop body up to the result record: the search and fit, the prediction on
  the test features, the three metrics of scikit-learn (which raise on a prediction of the
  wrong length), the percentage error, the importances. It returns the pipeline to be
  stored and the record, or the first exception.
\<close>

definition train_one ::
  "environment \<Rightarrow> string \<Rightarrow> string list \<Rightarrow> split_data \<Rightarrow> string
     \<Rightarrow> py_error + (pipeline \<times> result_record)" where
  "train_one env stamp feature_cols sp name =
     and_then (fit env name sp) (\<lambda>f.
     and_then (best_pipe f (X_test sp)) (\<lambda>y_pred.
     and_then (if length y_pred \<noteq> length (y_test sp)
               then Inl (ValueError ''inconsistent numbers of samples'')
               else r2_score env (y_test sp) y_pred) (\<lambda>r2.
     and_then (mean_absolute_error env (y_test sp) y_pred) (\<lambda>mae.
     and_then (mean_squared_error env (y_test sp) y_pred) (\<lambda>mse.
     and_then (math_sqrt mse) (\<lambda>rmse.
       Inr (best_pipe f,
            \<lparr>model_name = name,
             cv_rmse = best_score f,
             test_r2 = r2,
             test_mae = mae,
             test_rmse = rmse,
             test_mape = mape (zip (y_test sp) y_pred),
             best_params = chosen_params f,
             model_file = name @ ''_model_'' @ stamp @ ''.pkl'',
             feature_importance = map_option (\<lambda>imp. (feature_cols, imp)) (importances f)\<rparr>)))))))"

text \<open>
  The loop over the registry. Each pass sets \<^verbatim>\<open>current_model\<close> and \<^verbatim>\<open>progress\<close>, trains,
  stores the pipeline with \<^verbatim>\<open>joblib.dump\<close>, appends the record and appends the name to
  \<^verbatim>\<open>models_trained\<close>. An exception leaves the loop with the state as it is then.
  \<^verbatim>\<open>int((idx / total_models) * 100)\<close> is a multiple of twenty for the five models.
\<close>

fun train_loop ::
  "environment \<Rightarrow> string \<Rightarrow> string list \<Rightarrow> split_data \<Rightarrow> nat \<Rightarrow> nat \<Rightarrow> string list
     \<Rightarrow> server \<Rightarrow> result_record list \<Rightarrow> (py_error + result_record list) \<times> server" where
  "train_loop env stamp feature_cols sp total_models idx [] s results = (Inr results, s)"
| "train_loop env stamp feature_cols sp total_models idx (name # names) s results =
     (let s1 = s\<lparr>status := (status s)\<lparr>current_model := name,
                                        progress := int (idx * 100 div total_models)\<rparr>\<rparr>
      in case train_one env stamp feature_cols sp name of
           Inl e \<Rightarrow> (Inl e, s1)
         | Inr (pipe, r) \<Rightarrow>
             (case write_file (model_folder s1) (model_file r) (Pickle pipe) of
                Inl e \<Rightarrow> (Inl e, s1)
              | Inr dir \<Rightarrow>
                  train_loop env stamp feature_cols sp total_models (idx + 1) names
                    (s1\<lparr>model_folder := dir,
                        status := (status s1)\<lparr>models_trained :=
                                                 models_trained (status s1) @ [name]\<rparr>\<rparr>)
                    (results @ [r])))"

text \<open>The \<^verbatim>\<open>except\<close> clause of the handler.\<close>

definition training_error :: "py_error \<Rightarrow> server \<Rightarrow> response \<times> server" where
  "training_error e s = (ServerError e, s\<lparr>status := (status s)\<lparr>is_training := False\<rparr>\<rparr>)"

text \<open>After the loop: ranking, the summary, its two files, the status, the response.\<close>

definition finish_training ::
  "string \<Rightarrow> string \<Rightarrow> table \<Rightarrow> string list \<Rightarrow> split_data \<Rightarrow> result_record list \<Rightarrow> server
     \<Rightarrow> response \<times> server" where
  "finish_training stamp fname df feature_cols sp results s =
     (let results = sort_results results
      in case best_model results of
           Inl e \<Rightarrow> training_error e s
         | Inr best \<Rightarrow>
             (let summ = \<lparr>timestamp = stamp,
                          dataset_file = fname,
                          dataset_shape = (nrows df, length df),
                          features_used = feature_cols,
                          train_size = nrows (X_train sp),
                          test_size = nrows (X_test sp),
                          summary_models = results,
                          summary_best_model = model_name best\<rparr>
              in case write_file (results_folder s)
                        (''training_summary_'' @ stamp @ ''.json'') (SummaryJson summ) of
                   Inl e \<Rightarrow> training_error e s
                 | Inr dir \<Rightarrow>
                     (case save_latest_training dir summ of
                        Inl e \<Rightarrow> training_error e (s\<lparr>results_folder := dir\<rparr>)
                      | Inr dir' \<Rightarrow>
                          (TrainOk summ results (model_name best),
                           s\<lparr>results_folder := dir',
                             status := (status s)\<lparr>is_training := False, progress := 100\<rparr>\<rparr>))))"

text \<open>
  The handler in three parts. What comes before the loop either answers the request at
  once or hands over a job: the time stamp, the name of the saved upload, the engineered
  frame, the feature columns, the split, and the server with \<^verbatim>\<open>is_training\<close> set.
\<close>

record training_job =
  job_stamp :: string
  job_upload :: string
  job_frame :: table
  job_feature_cols :: "string list"
  job_split :: split_data
  job_server :: server

text \<open>
  From the engineered frame to the split: the numeric columns, the feature columns, the
  target, the rows without NaN, the check that a row is left, the split.
\<close>

definition split_frame ::
  "environment \<Rightarrow> string \<Rightarrow> string \<Rightarrow> table \<Rightarrow> server \<Rightarrow> (response \<times> server) + training_job" where
  "split_frame env stamp fname df s =
     (let numeric_df = select_numeric df;
          feature_cols = training_feature_cols numeric_df
      in if TARGET \<notin> set (columns numeric_df)
         then Inl (BadRequest (''Target column '' @ [CHR 0x22] @ TARGET @ [CHR 0x22]
                                  @ '' not found in dataset''), s)
         else
           case series numeric_df TARGET of
             Inl e \<Rightarrow> Inl (training_error e s)
           | Inr y \<Rightarrow>
               (let X = select_columns numeric_df feature_cols;
                    keep = valid_indices X y;
                    X = take_rows_table keep X;
                    y = take_rows keep y
                in if length (filter id keep) = 0
                   then Inl (BadRequest ''No valid rows after preprocessing'', s)
                   else
                     case train_test_split env X y of
                       Inl e \<Rightarrow> Inl (training_error e s)
                     | Inr sp \<Rightarrow>
                         Inr \<lparr>job_stamp = stamp, job_upload = fname, job_frame = df,
                              job_feature_cols = feature_cols, job_split = sp,
                              job_server = s\<lparr>status := (status s)\<lparr>is_training := True\<rparr>\<rparr>\<rparr>))"

text \<open>
  The start of \<^verbatim>\<open>train_models\<close>: the three checks of the upload, the purge of the model
  and results folders, the saving and parsing of the upload, the check for a WQI column,
  feature engineering, and the split.
\<close>

definition prepare_training ::
  "environment \<Rightarrow> server \<Rightarrow> upload option \<Rightarrow> (response \<times> server) + training_job" where
  "prepare_training env s request_file =
     (case request_file of
        None \<Rightarrow> Inl (BadRequest ''No file provided'', s)
      | Some f \<Rightarrow>
          if filename f = [] then Inl (BadRequest ''No file selected'', s)
          else if \<not> allowed_file (filename f)
          then Inl (BadRequest ''Invalid file type. Only CSV files allowed'', s)
          else
            (let s1 = s\<lparr>model_folder := purge_folder (remove_fails env ''models'') (model_folder s),
                        results_folder :=
                          purge_folder (remove_fails env ''results'') (results_folder s)\<rparr>;
                 stamp = now env;
                 fname = ''train_'' @ stamp @ ''_'' @ secure_filename env (filename f);
                 s2 = s1\<lparr>upload_folder := upload_folder s1 @ [fname]\<rparr>
             in case parsed f of
                  Inl e \<Rightarrow> Inl (training_error e s2)
                | Inr df \<Rightarrow>
                    if \<not> (TARGET \<in> set (columns df) \<or> ''WQI'' \<in> set (columns df))
                    then Inl (BadRequest
                            ''No WQI column found in dataset. Cannot train models without target variable.'',
                          s2)
                    else
                      (case preprocess_dataframe df True of
                         Inl e \<Rightarrow> Inl (training_error e s2)
                       | Inr df' \<Rightarrow> split_frame env stamp fname df' s2)))"

text \<open>The loop over the five models and what follows it.\<close>

definition run_training :: "environment \<Rightarrow> training_job \<Rightarrow> response \<times> server" where
  "run_training env job =
     (case train_loop env (job_stamp job) (job_feature_cols job) (job_split job)
             (length model_names) 0 model_names (job_server job) [] of
        (Inl e, s2) \<Rightarrow> training_error e s2
      | (Inr results, s2) \<Rightarrow>
          finish_training (job_stamp job) (job_upload job) (job_frame job)
            (job_feature_cols job) (job_split job) results s2)"

definition train_models :: "environment \<Rightarrow> server \<Rightarrow> upload option \<Rightarrow> response \<times> server" where
  "train_models env s request_file =
     (case prepare_training env s request_file of
        Inl answer \<Rightarrow> answer
      | Inr job \<Rightarrow> run_training env job)"

text \<open>A sequence of training requests, each served in the state the one before left.\<close>

fun train_all ::
  "server \<Rightarrow> (environment \<times> upload option) list \<Rightarrow> response list \<times> server" where
  "train_all s [] = ([], s)"
| "train_all s ((env, request_file) # rest) =
     (let (r, s1) = train_models env s request_file;
          (rs, s2) = train_all s1 rest
      in (r # rs, s2))"

section \<open>The prediction handler\<close>

definition prediction_feature_cols :: "table \<Rightarrow> string list" where
  "prediction_feature_cols df =
     filter (\<lambda>col. col \<in> set FEATURES
                    \<or> list_ex (\<lambda>feat. sublist feat col)
                         [''interaction'', ''ratio'', ''log'', ''squared''])
       (columns df)"

text \<open>The names in the model folder that start with the model's prefix and end in \<^verbatim>\<open>.pkl\<close>.\<close>

definition model_files :: "folder \<Rightarrow> string \<Rightarrow> string list" where
  "model_files dir name =
     filter (\<lambda>f. prefix (name @ ''_model_'') f \<and> suffix ''.pkl'' f) (map fst dir)"

text \<open>\<^verbatim>\<open>joblib.load\<close>: anything but a stored pipeline makes it raise.\<close>

definition joblib_load :: "folder \<Rightarrow> string \<Rightarrow> py_error + pipeline" where
  "joblib_load dir name =
     (case map_of dir name of
        Some (Pickle pipe) \<Rightarrow> Inr pipe
      | _ \<Rightarrow> Inl (LibraryError ''joblib.load''))"

text \<open>\<^verbatim>\<open>value_counts().to_dict()\<close> of the class labels: a label is a key when it occurs.\<close>

definition class_counts :: "string list \<Rightarrow> (string \<rightharpoonup> nat)" where
  "class_counts labels =
     (\<lambda>l. if l \<in> set labels then Some (length (filter (\<lambda>x. x = l) labels)) else None)"

text \<open>
  From the chosen artifact on: loading, predicting, the assignment of the predictions as a
  column of the uploaded frame (which raises unless there is one per row) and the
  statistics. It returns the predictions and their statistics, or the first exception.
\<close>

definition run_model ::
  "environment \<Rightarrow> server \<Rightarrow> table \<Rightarrow> table \<Rightarrow> string \<Rightarrow> py_error + (num list \<times> statistics)" where
  "run_model env s df_original df artifact =
     and_then (joblib_load (model_folder s) artifact) (\<lambda>pipe.
     and_then (pipe (select_columns df (prediction_feature_cols df))) (\<lambda>predictions.
     and_then (if length predictions \<noteq> nrows df_original
               then Inl (ValueError ''Length of values does not match length of index'')
               else np_statistics env predictions) (\<lambda>stats.
       Inr (predictions, stats))))"

text \<open>
  The rest of the handler: the class labels, the file of predictions, the metadata file,
  the response. A failure of the metadata file comes after the predictions file has been
  written; the state keeps what was written before the exception.
\<close>

definition predict_with ::
  "environment \<Rightarrow> server \<Rightarrow> string \<Rightarrow> string \<Rightarrow> table \<Rightarrow> table \<Rightarrow> string \<Rightarrow> response \<times> server" where
  "predict_with env s stamp model df_original df artifact =
     (case run_model env s df_original df artifact of
        Inl e \<Rightarrow> (ServerError e, s)
      | Inr (predictions, stats) \<Rightarrow>
          (let labels = map classify_wqi predictions;
               out = ''predictions_'' @ model @ ''_'' @ stamp @ ''.csv''
           in case write_file (results_folder s) out (PredictionCsv predictions labels) of
                Inl e \<Rightarrow> (ServerError e, s)
              | Inr dir \<Rightarrow>
                  (case save_prediction_metadata dir
                          \<lparr>prediction_timestamp = stamp,
                           model_used = model,
                           total_predictions = length predictions,
                           prediction_statistics = stats,
                           class_distribution = class_counts labels,
                           output_file = out\<rparr> of
                     Inl e \<Rightarrow> (ServerError e, s\<lparr>results_folder := dir\<rparr>)
                   | Inr dir' \<Rightarrow>
                       (PredictOk
                          \<lparr>result_model_used = model,
                           result_total = length predictions,
                           result_statistics = stats,
                           result_class_distribution = class_counts labels,
                           sample_predictions =
                             take (min 100 (nrows df_original)) (zip predictions labels),
                           result_output_file = out\<rparr>,
                        s\<lparr>results_folder := dir'\<rparr>))))"

text \<open>
  \<^verbatim>\<open>predict\<close>. The model's name defaults to XGBoost. The upload is checked, saved, parsed
  and engineered before the model folder is listed; \<^verbatim>\<open>model_files.sort(reverse=True)\<close>
  puts the greatest name first.
\<close>

definition predict :: "environment \<Rightarrow> server \<Rightarrow> predict_request \<Rightarrow> response \<times> server" where
  "predict env s req =
     (case uploaded req of
        None \<Rightarrow> (BadRequest ''No file provided'', s)
      | Some f \<Rightarrow>
          (let model = (case requested_model req of None \<Rightarrow> ''XGBoost'' | Some m \<Rightarrow> m)
           in if filename f = [] then (BadRequest ''No file selected'', s)
              else if \<not> allowed_file (filename f)
              then (BadRequest ''Invalid file type. Only CSV files allowed'', s)
              else
                (let stamp = now env;
                     fname = ''predict_'' @ stamp @ ''_'' @ secure_filename env (filename f);
                     s1 = s\<lparr>upload_folder := upload_folder s @ [fname]\<rparr>
                 in case parsed f of
                      Inl e \<Rightarrow> (ServerError e, s1)
                    | Inr df_original \<Rightarrow>
                        (case preprocess_dataframe df_original False of
                           Inl e \<Rightarrow> (ServerError e, s1)
                         | Inr df \<Rightarrow>
                             (let found = model_files (model_folder s1) model
                              in if found = []
                                 then (NotFound (''No trained model found for '' @ model), s1)
                                 else
                                   (case rev (sort found) of
                                      [] \<Rightarrow> (ServerError IndexError, s1)
                                    | artifact # others \<Rightarrow>
                                        predict_with env s1 stamp model df_original df artifact))))))"

section \<open>Notions used in the statements\<close>

text \<open>
  A frame as it is after the drops: labels distinct, every column numeric.
\<close>

definition numeric_frame :: "table \<Rightarrow> bool" where
  "numeric_frame d = (distinct (columns d) \<and> list_all (\<lambda>(n, c). is_numeric c) d)"

text \<open>The columns the check requires, with and without the target.\<close>

definition required_columns :: "bool \<Rightarrow> string list" where
  "required_columns is_train = (if is_train then FEATURES @ [TARGET] else FEATURES)"

text \<open>What the imputation makes of a column.\<close>

definition imputed :: "num list \<Rightarrow> num list" where
  "imputed xs = (if list_ex isna xs then fillna (median xs) xs else xs)"

text \<open>The derived columns of the source with the columns each is computed from.\<close>

definition derived_features :: "(string \<times> string list) list" where
  "derived_features =
     [(''pH_Temp_interaction'', [''pH'', ''Temp'']),
      (''TDS_Conductivity_ratio'', [''TDS'', ''Conductivity'']),
      (''Coliform_ratio'', [''Fecal_Coliform'', ''Total_Coliform'']),
      (''Fecal_Coliform_log'', [''Fecal_Coliform'']),
      (''Total_Coliform_log'', [''Total_Coliform'']),
      (''TDS_log'', [''TDS'']),
      (''pH_squared'', [''pH'']),
      (''Temp_squared'', [''Temp''])]"

text \<open>The cells of the numeric column with a label, when there is exactly one.\<close>

definition cells :: "table \<Rightarrow> string \<Rightarrow> num list" where
  "cells d c = (case getitem d c of [NumCol xs] \<Rightarrow> xs | _ \<Rightarrow> [])"

text \<open>
  The formulas of the specification for the derived columns: a product, two ratios with
  the denominator offset by one, three logarithms of one plus the value, two squares.
\<close>

definition ratio_plus_one :: "num \<Rightarrow> num \<Rightarrow> num" where
  "ratio_plus_one x y = num_div x (num_add y (Fin 1))"

definition derived_values :: "table \<Rightarrow> string \<Rightarrow> num list" where
  "derived_values d n =
     (if n = ''pH_Temp_interaction'' then map2 num_mul (cells d ''pH'') (cells d ''Temp'')
      else if n = ''TDS_Conductivity_ratio''
      then map2 ratio_plus_one (cells d ''TDS'') (cells d ''Conductivity'')
      else if n = ''Coliform_ratio''
      then map2 ratio_plus_one (cells d ''Fecal_Coliform'') (cells d ''Total_Coliform'')
      else if n = ''Fecal_Coliform_log'' then map num_log1p (cells d ''Fecal_Coliform'')
      else if n = ''Total_Coliform_log'' then map num_log1p (cells d ''Total_Coliform'')
      else if n = ''TDS_log'' then map num_log1p (cells d ''TDS'')
      else if n = ''pH_squared'' then map num_square (cells d ''pH'')
      else if n = ''Temp_squared'' then map num_square (cells d ''Temp'')
      else [])"





section \<open>Example inputs\<close>

text \<open>Five result records in the order of the registry, two of them tied at 2.9.\<close>

definition result_with :: "string \<Rightarrow> real \<Rightarrow> result_record" where
  "result_with name rmse =
     \<lparr>model_name = name, cv_rmse = Fin rmse, test_r2 = Fin 0, test_mae = Fin rmse,
      test_rmse = rmse, test_mape = Fin 10, best_params = [],
      model_file = name @ ''_model_20240101_000000.pkl'', feature_importance = None\<rparr>"

definition example_results :: "result_record list" where
  "example_results =
     map2 result_with model_names [3.1, 2.9, 4.0, 2.9, 3.5]"

text \<open>
  A dataset with every required column but Fluoride, with two text columns, and the frame
  renaming and dropping make of it; the same with a Fluoride column added.
\<close>

definition no_fluoride_example :: table where
  "no_fluoride_example =
     [(''State Name'', ObjCol [Some ''Kerala'', Some ''Goa'']),
      (''Temperature'', NumCol [Fin 20, Fin 22]),
      (''pH'', NumCol [Fin 7, NaN]),
      (''Conductivity'', NumCol [Fin 100, Fin 120]),
      (''Nitrate N (mg/L)'', NumCol [Fin 1, Fin 2]),
      (''Fecal_Coliform'', NumCol [Fin 3, Fin 4]),
      (''Total_Coliform'', NumCol [Fin 5, Fin 6]),
      (''TDS'', NumCol [Fin 50, Fin 60]),
      (''Remarks'', ObjCol [None, Some ''clear'']),
      (''WQI'', NumCol [Fin 30, Fin 80])]"

definition no_fluoride_dropped :: table where
  "no_fluoride_dropped =
     [(''Temp'', NumCol [Fin 20, Fin 22]),
      (''pH'', NumCol [Fin 7, NaN]),
      (''Conductivity'', NumCol [Fin 100, Fin 120]),
      (''Nitrate'', NumCol [Fin 1, Fin 2]),
      (''Fecal_Coliform'', NumCol [Fin 3, Fin 4]),
      (''Total_Coliform'', NumCol [Fin 5, Fin 6]),
      (''TDS'', NumCol [Fin 50, Fin 60]),
      (''WQI'', NumCol [Fin 30, Fin 80])]"

definition complete_example :: table where
  "complete_example = no_fluoride_example @ [(''Fluoride (mg/L)'', NumCol [Fin (1 / 2), NaN])]"

definition complete_dropped :: table where
  "complete_dropped = no_fluoride_dropped @ [(''Fluoride'', NumCol [Fin (1 / 2), NaN])]"

text \<open>The dataset with a Fluoride column in which every value is missing.\<close>

definition all_missing_example :: table where
  "all_missing_example = no_fluoride_example @ [(''Fluoride'', NumCol [NaN, NaN])]"

definition all_missing_dropped :: table where
  "all_missing_dropped = no_fluoride_dropped @ [(''Fluoride'', NumCol [NaN, NaN])]"


section \<open>Properties of the classification\<close>

text \<open>
  Claim C2. For every real number, \<^verbatim>\<open>classify_wqi\<close> returns one of five labels by a step
  function: Excellent up to 25, Good above 25 up to 50, Poor above 50 up to 75, Very Poor
  above 75 up to 100, Unsuitable for Drinking above 100; the six boundary values of the
  specification are classified as it says.
\<close>

theorem classify_wqi_step:
  "(classify_wqi (Fin w) = ''Excellent'') = (w \<le> 25)
   \<and> (classify_wqi (Fin w) = ''Good'') = (25 < w \<and> w \<le> 50)
   \<and> (classify_wqi (Fin w) = ''Poor'') = (50 < w \<and> w \<le> 75)
   \<and> (classify_wqi (Fin w) = ''Very Poor'') = (75 < w \<and> w \<le> 100)
   \<and> (classify_wqi (Fin w) = ''Unsuitable for Drinking'') = (100 < w)
   \<and> classify_wqi (Fin w) \<in> {''Excellent'', ''Good'', ''Poor'', ''Very Poor'',
         ''Unsuitable for Drinking''}
   \<and> classify_wqi (Fin 25) = ''Excellent''
   \<and> classify_wqi (Fin 25.0001) = ''Good''
   \<and> classify_wqi (Fin 50) = ''Good''
   \<and> classify_wqi (Fin 75) = ''Poor''
   \<and> classify_wqi (Fin 100) = ''Very Poor''
   \<and> classify_wqi (Fin 100.0001) = ''Unsuitable for Drinking''"
  by (simp add: classify_wqi_def)

section \<open>Properties of the selection\<close>

lemma sort_key_hd_first_min:
  fixes f :: "'a \<Rightarrow> real"
  assumes "xs \<noteq> []"
  shows "\<exists>i<length xs. hd (sort_key f xs) = xs ! i
           \<and> (\<forall>j<length xs. f (xs ! i) \<le> f (xs ! j))
           \<and> (\<forall>j<i. f (xs ! i) < f (xs ! j))"
proof -
  define ys where "ys = sort_key f xs"
  have "length ys = length xs" by (simp add: ys_def)
  with assms obtain r ys' where ys: "ys = r # ys'" by (cases ys) auto
  have srt: "sorted (map f ys)" by (simp add: ys_def)
  have sets: "set ys = set xs" by (simp add: ys_def)
  have rmin: "f r \<le> f x" if "x \<in> set xs" for x
    using srt sets that unfolding ys by auto
  have "filter (\<lambda>y. f y = f r) xs = filter (\<lambda>y. f y = f r) ys"
    by (simp add: ys_def sort_key_stable)
  also have "\<dots> = r # filter (\<lambda>y. f y = f r) ys'" by (simp add: ys)
  finally obtain us vs where xs: "xs = us @ r # vs" and us: "\<forall>u\<in>set us. f u \<noteq> f r"
    by (auto simp: filter_eq_Cons_iff)
  let ?i = "length us"
  have i: "?i < length xs" "xs ! ?i = r" by (simp_all add: xs)
  have below: "f r < f (xs ! j)" if "j < ?i" for j
  proof -
    have "xs ! j \<in> set us" using that by (simp add: xs nth_append)
    moreover have "xs ! j \<in> set xs" using that i(1) by simp
    ultimately show ?thesis using us rmin[of "xs ! j"] by force
  qed
  have "hd (sort_key f xs) = r" using ys by (simp add: ys_def)
  with i below rmin show ?thesis
    by (intro exI[of _ ?i]) auto
qed

lemma best_model_hd: "results \<noteq> [] \<Longrightarrow> best_model results = Inr (hd (sort_key test_rmse results))"
proof -
  assume "results \<noteq> []"
  then have "length (sort_key test_rmse results) \<noteq> 0" by simp
  then obtain r rs where "sort_key test_rmse results = r # rs"
    by (cases "sort_key test_rmse results") auto
  then show ?thesis by (simp add: best_model_def sort_results_def)
qed

lemma five_rmse_winner:
  assumes "map test_rmse results = [3.1, 2.9, 4.0, 2.9, 3.5]"
  shows "best_model results = Inr (results ! 1)"
proof -
  from assms obtain a b c d e where r: "results = [a, b, c, d, e]"
    by (auto simp: map_eq_Cons_conv)
  with assms have "test_rmse a = 3.1" "test_rmse b = 2.9" "test_rmse c = 4.0"
    "test_rmse d = 2.9" "test_rmse e = 3.5" by simp_all
  then show ?thesis by (simp add: r best_model_def sort_results_def)
qed

text \<open>
  Claim C1. The result records are ranked in ascending order of the held-out RMSE and the
  first is the winner; among records of equal RMSE the one that comes earlier in the list,
  which is in registry order, wins, because the sort is stable. For the five RMSEs
  3.1, 2.9, 4.0, 2.9, 3.5 the winner is the second record, the earlier of the two tied at
  2.9, which is SVR when the records are in registry order.
\<close>

theorem best_model_stable_minimum:
  assumes "results \<noteq> []"
  shows "sorted (map test_rmse (sort_results results))
       \<and> mset (sort_results results) = mset results
       \<and> (\<exists>i<length results. best_model results = Inr (results ! i)
            \<and> (\<forall>j<length results. test_rmse (results ! i) \<le> test_rmse (results ! j))
            \<and> (\<forall>j<i. test_rmse (results ! i) < test_rmse (results ! j)))
       \<and> (map test_rmse results = [3.1, 2.9, 4.0, 2.9, 3.5]
            \<longrightarrow> best_model results = Inr (results ! 1))
       \<and> (map test_rmse results = [3.1, 2.9, 4.0, 2.9, 3.5]
            \<and> map model_name results = model_names
            \<longrightarrow> map_sum id model_name (best_model results) = Inr ''SVR'')"
proof (intro conjI impI)
  show "sorted (map test_rmse (sort_results results))" by (simp add: sort_results_def)
  show "mset (sort_results results) = mset results" by (simp add: sort_results_def)
  show "\<exists>i<length results. best_model results = Inr (results ! i)
            \<and> (\<forall>j<length results. test_rmse (results ! i) \<le> test_rmse (results ! j))
            \<and> (\<forall>j<i. test_rmse (results ! i) < test_rmse (results ! j))"
    using sort_key_hd_first_min[OF assms, of test_rmse] best_model_hd[OF assms] by auto
  show "best_model results = Inr (results ! 1)"
    if "map test_rmse results = [3.1, 2.9, 4.0, 2.9, 3.5]"
    using that by (rule five_rmse_winner)
  show "map_sum id model_name (best_model results) = Inr ''SVR''"
    if h: "map test_rmse results = [3.1, 2.9, 4.0, 2.9, 3.5] \<and> map model_name results = model_names"
  proof -
    from h obtain a b c d e where r: "results = [a, b, c, d, e]"
      by (auto simp: map_eq_Cons_conv)
    with h have "model_name (results ! 1) = ''SVR''" by (simp add: model_names_def)
    with five_rmse_winner[of results] h show ?thesis by simp
  qed
qed

theorem best_model_stable_minimum_witness:
  "best_model example_results = Inr (example_results ! 1)
   \<and> model_name (example_results ! 1) = ''SVR''
   \<and> test_rmse (example_results ! 1) = test_rmse (example_results ! 3)"
  using best_model_stable_minimum[of example_results]
  by (simp add: example_results_def result_with_def model_names_def)

section \<open>Lemmas about frames\<close>

lemma length_getitem: "length (getitem df c) = count_list (columns df) c"
  by (induction df) (auto simp: getitem_def columns_def)

lemma getitem_Nil_iff: "getitem df c = [] \<longleftrightarrow> c \<notin> set (columns df)"
  by (induction df) (auto simp: getitem_def columns_def)

lemma getitem_drop_column:
  "getitem (drop_column col df) c = (if c = col then [] else getitem df c)"
  by (induction df) (auto simp: getitem_def drop_column_def)


lemma drop_non_numeric_general:
  assumes "\<forall>c\<in>set cols. count_list cols c = length (getitem df c)"
  shows "drop_non_numeric cols df =
           (if distinct cols
            then Inr (filter (\<lambda>(n, c). n \<notin> set cols \<or> is_numeric c) df)
            else Inl (AttributeError ''dtype''))"
  using assms
proof (induction cols arbitrary: df)
  case Nil
  then show ?case by simp
next
  case (Cons col cols)
  have len: "length (getitem df col) = Suc (count_list cols col)"
    using Cons.prems by simp
  show ?case
  proof (cases "col \<in> set cols")
    case True
    then have "count_list cols col \<noteq> 0" by (simp add: count_list_0_iff)
    then have "count_list cols col > 0" by simp
    with len have "length (getitem df col) \<ge> 2" by simp
    then obtain a b rest where "getitem df col = a # b # rest"
      by (cases "getitem df col"; cases "tl (getitem df col)") auto
    with True show ?thesis by (simp split: column.splits)
  next
    case False
    then have "count_list cols col = 0" by (simp add: count_list_0_iff)
    with len obtain a where a: "getitem df col = [a]"
      by (cases "getitem df col") auto
    have ent: "c = a" if "(col, c) \<in> set df" for c
    proof -
      from that have "c \<in> set (getitem df col)" by (force simp: getitem_def)
      with a show "c = a" by simp
    qed
    have pre0: "count_list cols c = length (getitem df c)" if "c \<in> set cols" for c
    proof -
      from that False have "c \<noteq> col" by auto
      moreover have "count_list (col # cols) c = length (getitem df c)"
        using Cons.prems that by simp
      ultimately show ?thesis by simp
    qed
    show ?thesis
    proof (cases a)
      case (NumCol xs)
      have pre: "\<forall>c\<in>set cols. count_list cols c = length (getitem df c)"
        using pre0 by blast
      have "filter (\<lambda>(n, c). n \<notin> set cols \<or> is_numeric c) df
            = filter (\<lambda>(n, c). n \<notin> set (col # cols) \<or> is_numeric c) df"
        using ent NumCol by (intro filter_cong) (auto simp: is_numeric_def dest!: ent)
      with Cons.IH[OF pre] a NumCol False show ?thesis by simp
    next
      case (ObjCol xs)
      have pre: "\<forall>c\<in>set cols. count_list cols c = length (getitem (drop_column col df) c)"
        using pre0 False by (auto simp: getitem_drop_column)
      have "filter (\<lambda>(n, c). n \<notin> set cols \<or> is_numeric c) (drop_column col df)
            = filter (\<lambda>(n, c). n \<notin> set (col # cols) \<or> is_numeric c) df"
        unfolding drop_column_def filter_filter
        using ent ObjCol by (intro filter_cong) (auto simp: is_numeric_def dest!: ent)
      with Cons.IH[OF pre] a ObjCol False show ?thesis by simp
    qed
  qed
qed

lemma drop_non_numeric_columns:
  "drop_non_numeric (columns df) df =
     (if distinct (columns df) then Inr (filter (\<lambda>(n, c). is_numeric c) df)
      else Inl (AttributeError ''dtype''))"
proof -
  have "filter (\<lambda>(n, c). n \<notin> set (columns df) \<or> is_numeric c) df
        = filter (\<lambda>(n, c). is_numeric c) df"
    by (intro filter_cong) (force simp: columns_def)+
  then show ?thesis
    using drop_non_numeric_general[of "columns df" df] by (simp add: length_getitem)
qed

lemma columns_filter: "columns (filter P df) = map fst (filter P df)"
  by (simp add: columns_def)

lemma rename_and_drop_numeric_frame:
  assumes "rename_and_drop df = Inr d"
  shows "numeric_frame d"
proof -
  let ?d0 = "drop_listed (rename_columns df)"
  from assms have dist: "distinct (columns ?d0)" and d: "d = filter (\<lambda>(n, c). is_numeric c) ?d0"
    by (auto simp: rename_and_drop_def Let_def drop_non_numeric_columns split: if_splits)
  have "distinct (columns d)"
    unfolding d columns_def using dist by (simp add: columns_def distinct_map_filter)
  moreover have "list_all (\<lambda>(n, c). is_numeric c) d"
    unfolding d by (simp add: list_all_iff)
  ultimately show ?thesis by (simp add: numeric_frame_def)
qed


lemma distinct_count_list_one: "distinct xs \<Longrightarrow> c \<in> set xs \<Longrightarrow> count_list xs c = 1"
  by (induction xs) (auto simp: count_list_0_iff)

lemma numeric_frame_getitem:
  assumes "numeric_frame d" "c \<in> set (columns d)"
  shows "\<exists>xs. getitem d c = [NumCol xs]"
proof -
  from assms have "count_list (columns d) c = 1"
    by (simp add: numeric_frame_def distinct_count_list_one)
  then have "length (getitem d c) = 1" by (simp add: length_getitem)
  then obtain a where a: "getitem d c = [a]"
    by (cases "getitem d c") auto
  then have "a \<in> set (getitem d c)" by simp
  then have "a \<in> snd ` set d" by (auto simp: getitem_def)
  with assms(1) have "is_numeric a" by (auto simp: numeric_frame_def list_all_iff)
  with a show ?thesis by (cases a) (auto simp: is_numeric_def)
qed

lemma columns_setitem:
  "columns (setitem d n col) = (if n \<in> set (columns d) then columns d else columns d @ [n])"
  by (auto simp: setitem_def columns_def)

lemma getitem_append: "getitem (d @ e) m = getitem d m @ getitem e m"
  by (simp add: getitem_def)

lemma getitem_setitem_other: "m \<noteq> n \<Longrightarrow> getitem (setitem d n col) m = getitem d m"
proof -
  assume mn: "m \<noteq> n"
  have "getitem (map (\<lambda>(k, c). if k = n then (k, col) else (k, c)) d) m = getitem d m"
    using mn by (induction d) (auto simp: getitem_def split: if_splits)
  with mn show ?thesis by (simp add: setitem_def getitem_append) (simp add: getitem_def)
qed

lemma getitem_setitem_same:
  assumes "distinct (columns d)"
  shows "getitem (setitem d n col) n = [col]"
proof (cases "n \<in> set (columns d)")
  case True
  have "getitem (map (\<lambda>(k, c). if k = n then (k, col) else (k, c)) d) n
        = map (\<lambda>c. col) (getitem d n)"
    by (induction d) (auto simp: getitem_def split: if_splits)
  moreover have "length (getitem d n) = 1"
    using assms True by (simp add: length_getitem distinct_count_list_one)
  ultimately show ?thesis using True
    by (cases "getitem d n") (auto simp: setitem_def)
next
  case False
  then have "getitem d n = []" by (simp add: getitem_Nil_iff)
  with False show ?thesis by (simp add: setitem_def getitem_append) (simp add: getitem_def)
qed

lemma numeric_frame_setitem:
  assumes "numeric_frame d"
  shows "numeric_frame (setitem d n (NumCol xs))"
proof -
  have "distinct (columns (setitem d n (NumCol xs)))"
    using assms by (simp add: columns_setitem numeric_frame_def)
  moreover have "list_all (\<lambda>(k, c). is_numeric c) (setitem d n (NumCol xs))"
    using assms by (auto simp: setitem_def numeric_frame_def list_all_iff is_numeric_def split: if_splits)
  ultimately show ?thesis by (simp add: numeric_frame_def)
qed

lemma cells_getitem: "getitem d c = [NumCol xs] \<Longrightarrow> cells d c = xs"
  by (simp add: cells_def)

lemma numeric_frame_cells:
  "numeric_frame d \<Longrightarrow> c \<in> set (columns d) \<Longrightarrow> getitem d c = [NumCol (cells d c)]"
  using numeric_frame_getitem[of d c] by (auto simp: cells_def)

lemma series_numeric_frame:
  "numeric_frame d \<Longrightarrow> c \<in> set (columns d) \<Longrightarrow> series d c = Inr (cells d c)"
  using numeric_frame_getitem[of d c] by (auto simp: cells_def series_def)

lemma columns_eq_getitem:
  assumes "\<And>m. m \<noteq> n \<Longrightarrow> getitem d' m = getitem d m"
  shows "m \<noteq> n \<Longrightarrow> m \<in> set (columns d') \<longleftrightarrow> m \<in> set (columns d)"
  using assms[of m] getitem_Nil_iff[of d m] getitem_Nil_iff[of d' m] by auto

subsection \<open>Imputation\<close>

lemma impute_column_ok:
  assumes "numeric_frame d" "c \<in> set (columns d)"
  shows "\<exists>d'. impute_column c d = Inr d' \<and> numeric_frame d' \<and> columns d' = columns d
            \<and> getitem d' c = [NumCol (imputed (cells d c))]
            \<and> (\<forall>m. m \<noteq> c \<longrightarrow> getitem d' m = getitem d m)"
proof -
  have g: "getitem d c = [NumCol (cells d c)]" using assms by (rule numeric_frame_cells)
  show ?thesis
  proof (cases "list_ex isna (cells d c)")
    case True
    let ?d' = "setitem d c (NumCol (fillna (median (cells d c)) (cells d c)))"
    have "impute_column c d = Inr ?d'" using g True by (simp add: impute_column_def)
    moreover have "numeric_frame ?d'" using assms(1) by (rule numeric_frame_setitem)
    moreover have "columns ?d' = columns d" using assms(2) by (simp add: columns_setitem)
    moreover have "getitem ?d' c = [NumCol (imputed (cells d c))]"
      using assms(1) True by (simp add: getitem_setitem_same numeric_frame_def imputed_def)
    moreover have "\<forall>m. m \<noteq> c \<longrightarrow> getitem ?d' m = getitem d m"
      by (simp add: getitem_setitem_other)
    ultimately show ?thesis by blast
  next
    case False
    then have "impute_column c d = Inr d" using g by (simp add: impute_column_def)
    moreover have "getitem d c = [NumCol (imputed (cells d c))]"
      using g False by (simp add: imputed_def)
    ultimately show ?thesis using assms(1) by blast
  qed
qed

lemma impute_features_ok:
  assumes "numeric_frame d" "distinct cols"
  shows "\<exists>d'. impute_features cols d = Inr d' \<and> numeric_frame d' \<and> columns d' = columns d
            \<and> (\<forall>m. m \<in> set (columns d) \<longrightarrow>
                  cells d' m = (if m \<in> set cols then imputed (cells d m) else cells d m))"
  using assms
proof (induction cols arbitrary: d)
  case Nil
  then show ?case by simp
next
  case (Cons c cols)
  show ?case
  proof (cases "c \<in> set (columns d)")
    case True
    from impute_column_ok[OF Cons.prems(1) True] obtain d1 where
      d1: "impute_column c d = Inr d1" "numeric_frame d1" "columns d1 = columns d"
        "getitem d1 c = [NumCol (imputed (cells d c))]"
        "\<forall>m. m \<noteq> c \<longrightarrow> getitem d1 m = getitem d m"
      by blast
    from Cons.IH[OF d1(2)] Cons.prems(2) obtain d' where
      d': "impute_features cols d1 = Inr d'" "numeric_frame d'" "columns d' = columns d1"
        "\<forall>m. m \<in> set (columns d1) \<longrightarrow>
            cells d' m = (if m \<in> set cols then imputed (cells d1 m) else cells d1 m)"
      by auto
    have c1: "cells d1 c = imputed (cells d c)" using d1(4) by (simp add: cells_def)
    have c2: "cells d1 m = cells d m" if "m \<noteq> c" for m using d1(5) that by (simp add: cells_def)
    have "impute_features (c # cols) d = Inr d'"
      using True d1(1) d'(1) by (simp add: and_then_def)
    moreover have "\<forall>m. m \<in> set (columns d) \<longrightarrow>
        cells d' m = (if m \<in> set (c # cols) then imputed (cells d m) else cells d m)"
    proof (intro allI impI)
      fix m assume m: "m \<in> set (columns d)"
      show "cells d' m = (if m \<in> set (c # cols) then imputed (cells d m) else cells d m)"
      proof (cases "m = c")
        case True
        with d'(4) d1(3) m c1 Cons.prems(2) show ?thesis by simp
      next
        case False
        with d'(4) d1(3) m c2[OF False] show ?thesis by simp
      qed
    qed
    ultimately show ?thesis using d'(2,3) d1(3) by auto
  next
    case False
    from Cons.IH[OF Cons.prems(1)] Cons.prems(2) obtain d' where
      d': "impute_features cols d = Inr d'" "numeric_frame d'" "columns d' = columns d"
        "\<forall>m. m \<in> set (columns d) \<longrightarrow>
            cells d' m = (if m \<in> set cols then imputed (cells d m) else cells d m)"
      by auto
    have "impute_features (c # cols) d = Inr d'" using False d'(1) by simp
    moreover have "\<forall>m. m \<in> set (columns d) \<longrightarrow>
        cells d' m = (if m \<in> set (c # cols) then imputed (cells d m) else cells d m)"
      using d'(4) False by auto
    ultimately show ?thesis using d'(2,3) by auto
  qed
qed

subsection \<open>Derived columns\<close>

lemma add_binary_ok:
  assumes "numeric_frame d"
  shows "\<exists>d'. add_binary name f a b d = Inr d' \<and> numeric_frame d'
           \<and> (\<forall>m. m \<noteq> name \<longrightarrow> getitem d' m = getitem d m)
           \<and> getitem d' name =
               (if a \<in> set (columns d) \<and> b \<in> set (columns d)
                then [NumCol (map2 f (cells d a) (cells d b))] else getitem d name)"
proof (cases "a \<in> set (columns d) \<and> b \<in> set (columns d)")
  case True
  let ?d' = "setitem d name (NumCol (map2 f (cells d a) (cells d b)))"
  have "add_binary name f a b d = Inr ?d'"
    using True assms by (simp add: add_binary_def series_numeric_frame and_then_def)
  moreover have "numeric_frame ?d'" using assms by (rule numeric_frame_setitem)
  moreover have "getitem ?d' name = [NumCol (map2 f (cells d a) (cells d b))]"
    using assms by (simp add: getitem_setitem_same numeric_frame_def)
  ultimately show ?thesis using True by (auto simp: getitem_setitem_other)
next
  case False
  then have "add_binary name f a b d = Inr d" by (auto simp: add_binary_def)
  with False assms show ?thesis by auto
qed

lemma add_unary_ok:
  assumes "numeric_frame d"
  shows "\<exists>d'. add_unary name f a d = Inr d' \<and> numeric_frame d'
           \<and> (\<forall>m. m \<noteq> name \<longrightarrow> getitem d' m = getitem d m)
           \<and> getitem d' name =
               (if a \<in> set (columns d) then [NumCol (map f (cells d a))] else getitem d name)"
proof (cases "a \<in> set (columns d)")
  case True
  let ?d' = "setitem d name (NumCol (map f (cells d a)))"
  have "add_unary name f a d = Inr ?d'"
    using True assms by (simp add: add_unary_def series_numeric_frame and_then_def)
  moreover have "numeric_frame ?d'" using assms by (rule numeric_frame_setitem)
  moreover have "getitem ?d' name = [NumCol (map f (cells d a))]"
    using assms by (simp add: getitem_setitem_same numeric_frame_def)
  ultimately show ?thesis using True by (auto simp: getitem_setitem_other)
next
  case False
  then have "add_unary name f a d = Inr d" by (auto simp: add_unary_def)
  with False assms show ?thesis by auto
qed

lemma same_getitem_same_cells:
  "getitem d' m = getitem d m \<Longrightarrow> cells d' m = cells d m"
  by (simp add: cells_def)

lemma same_getitem_same_membership:
  "getitem d' m = getitem d m \<Longrightarrow> m \<in> set (columns d') \<longleftrightarrow> m \<in> set (columns d)"
  using getitem_Nil_iff[of d m] getitem_Nil_iff[of d' m] by auto

lemma ratio_plus_one_eta: "(\<lambda>x y. num_div x (num_add y (Fin 1))) = ratio_plus_one"
  by (simp add: ratio_plus_one_def fun_eq_iff)

lemma add_derived_ok:
  assumes nf: "numeric_frame d"
  shows "\<exists>out. add_derived d = Inr out \<and> numeric_frame out
           \<and> (\<forall>m. m \<notin> fst ` set derived_features \<longrightarrow> getitem out m = getitem d m)
           \<and> (\<forall>(n, ps) \<in> set derived_features.
                 getitem out n =
                   (if set ps \<subseteq> set (columns d) then [NumCol (derived_values d n)]
                    else getitem d n))"
proof -
  from add_binary_ok[OF nf, of "''pH_Temp_interaction''" num_mul "''pH''" "''Temp''"]
  obtain d1 where d1: "add_binary ''pH_Temp_interaction'' num_mul ''pH'' ''Temp'' d = Inr d1"
    "numeric_frame d1" "\<And>m. m \<noteq> ''pH_Temp_interaction'' \<Longrightarrow> getitem d1 m = getitem d m"
    "getitem d1 ''pH_Temp_interaction'' =
       (if ''pH'' \<in> set (columns d) \<and> ''Temp'' \<in> set (columns d)
        then [NumCol (map2 num_mul (cells d ''pH'') (cells d ''Temp''))]
        else getitem d ''pH_Temp_interaction'')"
    by blast
  from add_binary_ok[OF d1(2), of "''TDS_Conductivity_ratio''"
      "\<lambda>x y. num_div x (num_add y (Fin 1))" "''TDS''" "''Conductivity''"]
  obtain d2 where d2: "add_binary ''TDS_Conductivity_ratio''
        (\<lambda>x y. num_div x (num_add y (Fin 1))) ''TDS'' ''Conductivity'' d1 = Inr d2"
    "numeric_frame d2" "\<And>m. m \<noteq> ''TDS_Conductivity_ratio'' \<Longrightarrow> getitem d2 m = getitem d1 m"
    "getitem d2 ''TDS_Conductivity_ratio'' =
       (if ''TDS'' \<in> set (columns d1) \<and> ''Conductivity'' \<in> set (columns d1)
        then [NumCol (map2 (\<lambda>x y. num_div x (num_add y (Fin 1))) (cells d1 ''TDS'') (cells d1 ''Conductivity''))]
        else getitem d1 ''TDS_Conductivity_ratio'')"
    by blast
  from add_binary_ok[OF d2(2), of "''Coliform_ratio''"
      "\<lambda>x y. num_div x (num_add y (Fin 1))" "''Fecal_Coliform''" "''Total_Coliform''"]
  obtain d3 where d3: "add_binary ''Coliform_ratio''
        (\<lambda>x y. num_div x (num_add y (Fin 1))) ''Fecal_Coliform'' ''Total_Coliform'' d2 = Inr d3"
    "numeric_frame d3" "\<And>m. m \<noteq> ''Coliform_ratio'' \<Longrightarrow> getitem d3 m = getitem d2 m"
    "getitem d3 ''Coliform_ratio'' =
       (if ''Fecal_Coliform'' \<in> set (columns d2) \<and> ''Total_Coliform'' \<in> set (columns d2)
        then [NumCol (map2 (\<lambda>x y. num_div x (num_add y (Fin 1))) (cells d2 ''Fecal_Coliform'') (cells d2 ''Total_Coliform''))]
        else getitem d2 ''Coliform_ratio'')"
    by blast
  from add_unary_ok[OF d3(2), of "''Fecal_Coliform_log''" num_log1p "''Fecal_Coliform''"]
  obtain d4 where d4: "add_unary ''Fecal_Coliform_log'' num_log1p ''Fecal_Coliform'' d3 = Inr d4"
    "numeric_frame d4" "\<And>m. m \<noteq> ''Fecal_Coliform_log'' \<Longrightarrow> getitem d4 m = getitem d3 m"
    "getitem d4 ''Fecal_Coliform_log'' =
       (if ''Fecal_Coliform'' \<in> set (columns d3)
        then [NumCol (map num_log1p (cells d3 ''Fecal_Coliform''))]
        else getitem d3 ''Fecal_Coliform_log'')"
    by blast
  from add_unary_ok[OF d4(2), of "''Total_Coliform_log''" num_log1p "''Total_Coliform''"]
  obtain d5 where d5: "add_unary ''Total_Coliform_log'' num_log1p ''Total_Coliform'' d4 = Inr d5"
    "numeric_frame d5" "\<And>m. m \<noteq> ''Total_Coliform_log'' \<Longrightarrow> getitem d5 m = getitem d4 m"
    "getitem d5 ''Total_Coliform_log'' =
       (if ''Total_Coliform'' \<in> set (columns d4)
        then [NumCol (map num_log1p (cells d4 ''Total_Coliform''))]
        else getitem d4 ''Total_Coliform_log'')"
    by blast
  from add_unary_ok[OF d5(2), of "''TDS_log''" num_log1p "''TDS''"]
  obtain d6 where d6: "add_unary ''TDS_log'' num_log1p ''TDS'' d5 = Inr d6"
    "numeric_frame d6" "\<And>m. m \<noteq> ''TDS_log'' \<Longrightarrow> getitem d6 m = getitem d5 m"
    "getitem d6 ''TDS_log'' =
       (if ''TDS'' \<in> set (columns d5)
        then [NumCol (map num_log1p (cells d5 ''TDS''))]
        else getitem d5 ''TDS_log'')"
    by blast
  from add_unary_ok[OF d6(2), of "''pH_squared''" num_square "''pH''"]
  obtain d7 where d7: "add_unary ''pH_squared'' num_square ''pH'' d6 = Inr d7"
    "numeric_frame d7" "\<And>m. m \<noteq> ''pH_squared'' \<Longrightarrow> getitem d7 m = getitem d6 m"
    "getitem d7 ''pH_squared'' =
       (if ''pH'' \<in> set (columns d6)
        then [NumCol (map num_square (cells d6 ''pH''))]
        else getitem d6 ''pH_squared'')"
    by blast
  from add_unary_ok[OF d7(2), of "''Temp_squared''" num_square "''Temp''"]
  obtain d8 where d8: "add_unary ''Temp_squared'' num_square ''Temp'' d7 = Inr d8"
    "numeric_frame d8" "\<And>m. m \<noteq> ''Temp_squared'' \<Longrightarrow> getitem d8 m = getitem d7 m"
    "getitem d8 ''Temp_squared'' =
       (if ''Temp'' \<in> set (columns d7)
        then [NumCol (map num_square (cells d7 ''Temp''))]
        else getitem d7 ''Temp_squared'')"
    by blast
  have run: "add_derived d = Inr d8"
    by (simp add: add_derived_def and_then_def d1(1) d2(1) d3(1) d4(1) d5(1) d6(1) d7(1) d8(1))
  have other: "getitem d8 m = getitem d m" if "m \<notin> fst ` set derived_features" for m
  proof -
    from that have ne: "m \<noteq> ''pH_Temp_interaction''" "m \<noteq> ''TDS_Conductivity_ratio''"
      "m \<noteq> ''Coliform_ratio''" "m \<noteq> ''Fecal_Coliform_log''" "m \<noteq> ''Total_Coliform_log''"
      "m \<noteq> ''TDS_log''" "m \<noteq> ''pH_squared''" "m \<noteq> ''Temp_squared''"
      by (auto simp: derived_features_def)
    show ?thesis
      by (simp only: d8(3)[OF ne(8)] d7(3)[OF ne(7)] d6(3)[OF ne(6)] d5(3)[OF ne(5)]
          d4(3)[OF ne(4)] d3(3)[OF ne(3)] d2(3)[OF ne(2)] d1(3)[OF ne(1)])
  qed
  have g1: "getitem d1 m = getitem d m" if "m \<in> set FEATURES" for m
    using that by (intro d1(3)) (auto simp: FEATURES_def)
  have g2: "getitem d2 m = getitem d m" if "m \<in> set FEATURES" for m
    using that g1[OF that] d2(3)[of m] by (auto simp: FEATURES_def)
  have g3: "getitem d3 m = getitem d m" if "m \<in> set FEATURES" for m
    using that g2[OF that] d3(3)[of m] by (auto simp: FEATURES_def)
  have g4: "getitem d4 m = getitem d m" if "m \<in> set FEATURES" for m
    using that g3[OF that] d4(3)[of m] by (auto simp: FEATURES_def)
  have g5: "getitem d5 m = getitem d m" if "m \<in> set FEATURES" for m
    using that g4[OF that] d5(3)[of m] by (auto simp: FEATURES_def)
  have g6: "getitem d6 m = getitem d m" if "m \<in> set FEATURES" for m
    using that g5[OF that] d6(3)[of m] by (auto simp: FEATURES_def)
  have g7: "getitem d7 m = getitem d m" if "m \<in> set FEATURES" for m
    using that g6[OF that] d7(3)[of m] by (auto simp: FEATURES_def)
  note gs = g1 g2 g3 g4 g5 g6 g7
  have f: "''pH'' \<in> set FEATURES" "''Temp'' \<in> set FEATURES" "''TDS'' \<in> set FEATURES"
    "''Conductivity'' \<in> set FEATURES" "''Fecal_Coliform'' \<in> set FEATURES"
    "''Total_Coliform'' \<in> set FEATURES"
    by (simp_all add: FEATURES_def)
  note cs = gs[THEN same_getitem_same_cells] 
  note ms = gs[THEN same_getitem_same_membership]
  have v1: "getitem d8 ''pH_Temp_interaction'' =
      (if set [''pH'', ''Temp''] \<subseteq> set (columns d) then [NumCol (derived_values d ''pH_Temp_interaction'')]
       else getitem d ''pH_Temp_interaction'')"
    by (simp add: d8(3) d7(3) d6(3) d5(3) d4(3) d3(3) d2(3) d1(4) derived_values_def)
  have v2: "getitem d8 ''TDS_Conductivity_ratio'' =
      (if set [''TDS'', ''Conductivity''] \<subseteq> set (columns d) then [NumCol (derived_values d ''TDS_Conductivity_ratio'')]
       else getitem d ''TDS_Conductivity_ratio'')"
    by (simp add: d8(3) d7(3) d6(3) d5(3) d4(3) d3(3) d2(4) d1(3) cs(1)[OF f(3)] cs(1)[OF f(4)]
        ms(1)[OF f(3)] ms(1)[OF f(4)] derived_values_def ratio_plus_one_eta)
  have v3: "getitem d8 ''Coliform_ratio'' =
      (if set [''Fecal_Coliform'', ''Total_Coliform''] \<subseteq> set (columns d) then [NumCol (derived_values d ''Coliform_ratio'')]
       else getitem d ''Coliform_ratio'')"
    by (simp add: d8(3) d7(3) d6(3) d5(3) d4(3) d3(4) d2(3) d1(3) cs(2)[OF f(5)] cs(2)[OF f(6)]
        ms(2)[OF f(5)] ms(2)[OF f(6)] derived_values_def ratio_plus_one_eta)
  have v4: "getitem d8 ''Fecal_Coliform_log'' =
      (if set [''Fecal_Coliform''] \<subseteq> set (columns d) then [NumCol (derived_values d ''Fecal_Coliform_log'')]
       else getitem d ''Fecal_Coliform_log'')"
    by (simp add: d8(3) d7(3) d6(3) d5(3) d4(4) d3(3) d2(3) d1(3) cs(3)[OF f(5)]
        ms(3)[OF f(5)] derived_values_def)
  have v5: "getitem d8 ''Total_Coliform_log'' =
      (if set [''Total_Coliform''] \<subseteq> set (columns d) then [NumCol (derived_values d ''Total_Coliform_log'')]
       else getitem d ''Total_Coliform_log'')"
    by (simp add: d8(3) d7(3) d6(3) d5(4) d4(3) d3(3) d2(3) d1(3) cs(4)[OF f(6)]
        ms(4)[OF f(6)] derived_values_def)
  have v6: "getitem d8 ''TDS_log'' =
      (if set [''TDS''] \<subseteq> set (columns d) then [NumCol (derived_values d ''TDS_log'')]
       else getitem d ''TDS_log'')"
    by (simp add: d8(3) d7(3) d6(4) d5(3) d4(3) d3(3) d2(3) d1(3) cs(5)[OF f(3)]
        ms(5)[OF f(3)] derived_values_def)
  have v7: "getitem d8 ''pH_squared'' =
      (if set [''pH''] \<subseteq> set (columns d) then [NumCol (derived_values d ''pH_squared'')]
       else getitem d ''pH_squared'')"
    by (simp add: d8(3) d7(4) d6(3) d5(3) d4(3) d3(3) d2(3) d1(3) cs(6)[OF f(1)]
        ms(6)[OF f(1)] derived_values_def)
  have v8: "getitem d8 ''Temp_squared'' =
      (if set [''Temp''] \<subseteq> set (columns d) then [NumCol (derived_values d ''Temp_squared'')]
       else getitem d ''Temp_squared'')"
    by (simp add: d8(4) d7(3) d6(3) d5(3) d4(3) d3(3) d2(3) d1(3) cs(7)[OF f(2)]
        ms(7)[OF f(2)] derived_values_def)
  have "\<forall>(n, ps) \<in> set derived_features.
          getitem d8 n =
            (if set ps \<subseteq> set (columns d) then [NumCol (derived_values d n)] else getitem d n)"
    unfolding derived_features_def using v1 v2 v3 v4 v5 v6 v7 v8 by simp
  with run d8(2) other show ?thesis by blast
qed

subsection \<open>Feature engineering as a whole\<close>

lemma check_required_eq:
  "check_required is_train d =
     (if missing_from (required_columns is_train) d \<noteq> []
      then Inl (MissingColumns (missing_from (required_columns is_train) d) (columns d))
      else Inr d)"
  by (simp add: check_required_def required_columns_def Let_def)

lemma missing_from_Nil_iff: "missing_from req d = [] \<longleftrightarrow> set req \<subseteq> set (columns d)"
  by (auto simp: missing_from_def filter_empty_conv)

lemma set_missing_from: "set (missing_from req d) = set req - set (columns d)"
  by (auto simp: missing_from_def)

lemma preprocess_missing:
  assumes "rename_and_drop df = Inr d" "missing_from (required_columns is_train) d \<noteq> []"
  shows "preprocess_dataframe df is_train =
           Inl (MissingColumns (missing_from (required_columns is_train) d) (columns d))"
  using assms by (simp add: preprocess_dataframe_def and_then_def check_required_eq)

lemma impute_stage_ok:
  assumes nf: "numeric_frame d"
  shows "\<exists>d4. and_then (impute_features FEATURES d) (impute_target is_train) = Inr d4
           \<and> numeric_frame d4 \<and> columns d4 = columns d
           \<and> (\<forall>m\<in>set (columns d).
                 cells d4 m = (if m \<in> set FEATURES \<or> (is_train \<and> m = TARGET)
                               then imputed (cells d m) else cells d m))"
proof -
  have "distinct FEATURES" by (simp add: FEATURES_def)
  from impute_features_ok[OF nf this] obtain d3 where
    d3: "impute_features FEATURES d = Inr d3" "numeric_frame d3" "columns d3 = columns d"
      "\<forall>m. m \<in> set (columns d) \<longrightarrow>
          cells d3 m = (if m \<in> set FEATURES then imputed (cells d m) else cells d m)"
    by blast
  have tf: "TARGET \<notin> set FEATURES" by (simp add: TARGET_def FEATURES_def)
  show ?thesis
  proof (cases "is_train \<and> TARGET \<in> set (columns d)")
    case True
    then have t3: "TARGET \<in> set (columns d3)" using d3(3) by simp
    from impute_column_ok[OF d3(2) t3] obtain d4 where
      d4: "impute_column TARGET d3 = Inr d4" "numeric_frame d4" "columns d4 = columns d3"
        "getitem d4 TARGET = [NumCol (imputed (cells d3 TARGET))]"
        "\<forall>m. m \<noteq> TARGET \<longrightarrow> getitem d4 m = getitem d3 m"
      by blast
    have run: "and_then (impute_features FEATURES d) (impute_target is_train) = Inr d4"
      using d3(1) d4(1) True t3 by (simp add: and_then_def impute_target_def)
    have "cells d4 m = (if m \<in> set FEATURES \<or> (is_train \<and> m = TARGET)
                         then imputed (cells d m) else cells d m)"
      if m: "m \<in> set (columns d)" for m
    proof (cases "m = TARGET")
      case T: True
      have "cells d4 TARGET = imputed (cells d3 TARGET)" using d4(4) by (simp add: cells_def)
      also have "cells d3 TARGET = cells d TARGET" using d3(4) True tf by simp
      finally show ?thesis using T True by simp
    next
      case F: False
      then have "cells d4 m = cells d3 m" using d4(5) by (simp add: cells_def)
      with d3(4) m F show ?thesis by simp
    qed
    with run d4(2,3) d3(3) show ?thesis by auto
  next
    case False
    have run: "and_then (impute_features FEATURES d) (impute_target is_train) = Inr d3"
      using d3(1,3) False by (auto simp: and_then_def impute_target_def)
    have "cells d3 m = (if m \<in> set FEATURES \<or> (is_train \<and> m = TARGET)
                         then imputed (cells d m) else cells d m)"
      if m: "m \<in> set (columns d)" for m
      using d3(4) m False tf by auto
    with run d3(2,3) show ?thesis by auto
  qed
qed

lemma preprocess_ok:
  assumes rd: "rename_and_drop df = Inr d"
    and req: "missing_from (required_columns is_train) d = []"
  shows "\<exists>d4 out. preprocess_dataframe df is_train = Inr out \<and> numeric_frame out
           \<and> numeric_frame d4 \<and> columns d4 = columns d
           \<and> (\<forall>m\<in>set (columns d).
                 cells d4 m = (if m \<in> set FEATURES \<or> (is_train \<and> m = TARGET)
                               then imputed (cells d m) else cells d m))
           \<and> (\<forall>m. m \<notin> fst ` set derived_features \<longrightarrow> getitem out m = getitem d4 m)
           \<and> (\<forall>(n, ps) \<in> set derived_features. getitem out n = [NumCol (derived_values d4 n)])"
proof -
  have nf: "numeric_frame d" using rd by (rule rename_and_drop_numeric_frame)
  from impute_stage_ok[OF nf, of is_train] obtain d4 where
    d4: "and_then (impute_features FEATURES d) (impute_target is_train) = Inr d4"
      "numeric_frame d4" "columns d4 = columns d"
      "\<forall>m\<in>set (columns d).
          cells d4 m = (if m \<in> set FEATURES \<or> (is_train \<and> m = TARGET)
                        then imputed (cells d m) else cells d m)"
    by blast
  from add_derived_ok[OF d4(2)] obtain out where
    out: "add_derived d4 = Inr out" "numeric_frame out"
      "\<forall>m. m \<notin> fst ` set derived_features \<longrightarrow> getitem out m = getitem d4 m"
      "\<forall>(n, ps) \<in> set derived_features.
          getitem out n =
            (if set ps \<subseteq> set (columns d4) then [NumCol (derived_values d4 n)] else getitem d4 n)"
    by blast
  have feat: "set FEATURES \<subseteq> set (columns d)"
    using req by (auto simp: missing_from_Nil_iff required_columns_def split: if_splits)
  have pre: "set ps \<subseteq> set FEATURES" if "(n, ps) \<in> set derived_features" for n ps
    using that by (auto simp: derived_features_def FEATURES_def)
  have vals: "\<forall>(n, ps) \<in> set derived_features. getitem out n = [NumCol (derived_values d4 n)]"
    using out(4) pre feat d4(3) by fastforce
  have run: "preprocess_dataframe df is_train = Inr out"
  proof -
    have "and_then (impute_features FEATURES d) (\<lambda>d3. and_then (impute_target is_train d3) add_derived)
          = and_then (and_then (impute_features FEATURES d) (impute_target is_train)) add_derived"
      by (simp add: and_then_def split: sum.splits)
    then show ?thesis
      using rd req d4(1) out(1)
      by (simp add: preprocess_dataframe_def check_required_eq) (simp add: and_then_def)
  qed
  from run out(2) d4(2,3,4) out(3) vals show ?thesis by blast
qed

section \<open>Properties of the check for required columns\<close>

lemma distinct_set_singleton: "distinct xs \<Longrightarrow> set xs = {x} \<Longrightarrow> xs = [x]"
  by (cases xs; cases "tl xs") auto

lemma rename_and_drop_no_fluoride: "rename_and_drop no_fluoride_example = Inr no_fluoride_dropped"
  by (simp add: rename_and_drop_def rename_columns_def drop_listed_def RENAME_MAP_def
      cols_to_drop_def columns_def drop_column_def getitem_def no_fluoride_example_def
      no_fluoride_dropped_def)

lemma rename_and_drop_complete: "rename_and_drop complete_example = Inr complete_dropped"
  by (simp add: rename_and_drop_def rename_columns_def drop_listed_def RENAME_MAP_def
      cols_to_drop_def columns_def drop_column_def getitem_def no_fluoride_example_def
      no_fluoride_dropped_def complete_example_def complete_dropped_def)

text \<open>
  Claim C3. In training mode, when one of the eight canonical columns or the target is
  absent from the frame that renaming and dropping leave, the feature engineer fails with
  the MissingColumns error, whose message lists every absent required column; a dataset
  lacking only Fluoride fails with exactly that name. When none is absent the feature
  engineer returns a frame.
\<close>

theorem preprocess_names_every_missing_column:
  assumes "rename_and_drop df = Inr d"
  shows "(missing_from (FEATURES @ [TARGET]) d \<noteq> [] \<longrightarrow>
            preprocess_dataframe df True =
              Inl (MissingColumns (missing_from (FEATURES @ [TARGET]) d) (columns d)))
       \<and> set (missing_from (FEATURES @ [TARGET]) d) = set (FEATURES @ [TARGET]) - set (columns d)
       \<and> (set (FEATURES @ [TARGET]) - set (columns d) = {''Fluoride''} \<longrightarrow>
            preprocess_dataframe df True = Inl (MissingColumns [''Fluoride''] (columns d)))
       \<and> (missing_from (FEATURES @ [TARGET]) d = [] \<longrightarrow>
            (\<exists>out. preprocess_dataframe df True = Inr out))"
proof (intro conjI impI)
  show m: "preprocess_dataframe df True =
          Inl (MissingColumns (missing_from (FEATURES @ [TARGET]) d) (columns d))"
    if "missing_from (FEATURES @ [TARGET]) d \<noteq> []"
    using preprocess_missing[OF assms, of True] that by (simp add: required_columns_def)
  show s: "set (missing_from (FEATURES @ [TARGET]) d) = set (FEATURES @ [TARGET]) - set (columns d)"
    by (rule set_missing_from)
  show "preprocess_dataframe df True = Inl (MissingColumns [''Fluoride''] (columns d))"
    if h: "set (FEATURES @ [TARGET]) - set (columns d) = {''Fluoride''}"
  proof -
    have "distinct (missing_from (FEATURES @ [TARGET]) d)"
      by (simp add: missing_from_def FEATURES_def TARGET_def)
    with s h have "missing_from (FEATURES @ [TARGET]) d = [''Fluoride'']"
      by (intro distinct_set_singleton) simp_all
    with m show ?thesis by simp
  qed
  show "\<exists>out. preprocess_dataframe df True = Inr out"
    if "missing_from (FEATURES @ [TARGET]) d = []"
    using preprocess_ok[OF assms, of True] that by (auto simp: required_columns_def)
qed

theorem preprocess_names_every_missing_column_witness:
  "rename_and_drop no_fluoride_example = Inr no_fluoride_dropped
   \<and> preprocess_dataframe no_fluoride_example True =
       Inl (MissingColumns [''Fluoride'']
              [''Temp'', ''pH'', ''Conductivity'', ''Nitrate'', ''Fecal_Coliform'',
               ''Total_Coliform'', ''TDS'', ''WQI''])
   \<and> rename_and_drop complete_example = Inr complete_dropped
   \<and> (\<exists>out. preprocess_dataframe complete_example True = Inr out)"
  using preprocess_names_every_missing_column[OF rename_and_drop_no_fluoride]
    preprocess_names_every_missing_column[OF rename_and_drop_complete]
    rename_and_drop_no_fluoride rename_and_drop_complete
  by (simp add: missing_from_def FEATURES_def TARGET_def columns_def no_fluoride_dropped_def
      complete_dropped_def)

section \<open>Properties of the imputation\<close>

lemma set_insort_num: "set (insort_num x xs) = insert x (set xs)"
  by (induction xs) auto

lemma set_sort_num: "set (sort_num xs) = set xs"
  by (induction xs) (auto simp: sort_num_def set_insort_num)

lemma length_insort_num: "length (insort_num x xs) = Suc (length xs)"
  by (induction xs) auto

lemma length_sort_num: "length (sort_num xs) = length xs"
  by (induction xs) (auto simp: sort_num_def length_insort_num)

lemma median_finite:
  assumes some: "\<exists>x\<in>set xs. x \<noteq> NaN" and fin: "\<forall>x\<in>set xs. x \<noteq> PInf \<and> x \<noteq> NInf"
  shows "median xs \<noteq> NaN"
proof -
  define vs where "vs = sort_num (filter (\<lambda>x. \<not> isna x) xs)"
  have sv: "set vs = {x \<in> set xs. x \<noteq> NaN}"
    by (auto simp: vs_def set_sort_num isna_def)
  have allfin: "\<exists>r. v = Fin r" if "v \<in> set vs" for v
  proof -
    from that sv have "v \<in> set xs" "v \<noteq> NaN" by auto
    with fin have "v \<noteq> NaN \<and> v \<noteq> PInf \<and> v \<noteq> NInf" by auto
    then show ?thesis using num.exhaust[of v] by blast
  qed
  from some obtain x0 where "x0 \<in> set xs" "x0 \<noteq> NaN" by blast
  then have "x0 \<in> set vs" unfolding sv by simp
  then have ne: "vs \<noteq> []" by (cases vs) simp_all
  then have pos: "0 < length vs" by simp
  have nth: "\<exists>r. vs ! k = Fin r" if "k < length vs" for k
    using allfin[of "vs ! k"] that by simp
  have k1: "length vs div 2 < length vs" using pos by simp
  have k2: "length vs div 2 - 1 < length vs" using pos by arith
  from nth[OF k1] obtain a where a: "vs ! (length vs div 2) = Fin a" by blast
  from nth[OF k2] obtain b where b: "vs ! (length vs div 2 - 1) = Fin b" by blast
  have m: "median xs = (if length vs = 0 then NaN else if odd (length vs) then vs ! (length vs div 2)
                     else num_half (num_add (vs ! (length vs div 2 - 1)) (vs ! (length vs div 2))))"
    by (simp only: median_def Let_def vs_def)
  have "length vs \<noteq> 0" using ne by simp
  then show ?thesis unfolding m using a b by simp
qed

lemma fillna_no_nan: "v \<noteq> NaN \<Longrightarrow> \<not> list_ex isna (fillna v xs)"
  by (induction xs) (auto simp: fillna_def isna_def)

lemma imputed_no_nan: "median xs \<noteq> NaN \<Longrightarrow> \<not> list_ex isna (imputed xs)"
  by (simp add: imputed_def fillna_no_nan)

lemma preprocess_training_columns:
  assumes rd: "rename_and_drop df = Inr d" and req: "missing_from (FEATURES @ [TARGET]) d = []"
  shows "\<exists>out. preprocess_dataframe df True = Inr out
           \<and> (\<forall>c\<in>set (FEATURES @ [TARGET]). getitem out c = [NumCol (imputed (cells d c))])"
proof -
  from preprocess_ok[OF rd, of True] req obtain d4 out where
    o: "preprocess_dataframe df True = Inr out" "numeric_frame d4" "columns d4 = columns d"
      "\<forall>m\<in>set (columns d).
          cells d4 m = (if m \<in> set FEATURES \<or> (True \<and> m = TARGET)
                        then imputed (cells d m) else cells d m)"
      "\<forall>m. m \<notin> fst ` set derived_features \<longrightarrow> getitem out m = getitem d4 m"
    by (auto simp: required_columns_def)
  have sub: "set (FEATURES @ [TARGET]) \<subseteq> set (columns d)"
    using req by (simp add: missing_from_Nil_iff)
  have "getitem out c = [NumCol (imputed (cells d c))]" if c: "c \<in> set (FEATURES @ [TARGET])" for c
  proof -
    have nd: "c \<notin> fst ` set derived_features"
      using c by (auto simp: derived_features_def FEATURES_def TARGET_def)
    have cd: "c \<in> set (columns d)" using c sub by blast
    have "getitem out c = getitem d4 c" using o(5) nd by simp
    also have "\<dots> = [NumCol (cells d4 c)]" using o(2,3) cd by (simp add: numeric_frame_cells)
    also have "cells d4 c = imputed (cells d c)" using o(4) cd c by auto
    finally show ?thesis .
  qed
  with o(1) show ?thesis by blast
qed

lemma rename_and_drop_all_missing: "rename_and_drop all_missing_example = Inr all_missing_dropped"
  by (simp add: rename_and_drop_def rename_columns_def drop_listed_def RENAME_MAP_def
      cols_to_drop_def columns_def drop_column_def getitem_def no_fluoride_example_def
      no_fluoride_dropped_def all_missing_example_def all_missing_dropped_def)

text \<open>
  Claim C5 says that, for every table with the eight canonical columns and the target, all
  numeric, the feature engineer in training mode returns a frame without NaN in these
  columns. A column that is missing throughout has the median NaN, and filling with NaN
  changes nothing: the Fluoride column of the example comes back as it went in.
\<close>

theorem preprocess_zero_nan_counterexample:
  "rename_and_drop all_missing_example = Inr all_missing_dropped
   \<and> missing_from (FEATURES @ [TARGET]) all_missing_dropped = []
   \<and> (\<exists>out. preprocess_dataframe all_missing_example True = Inr out
          \<and> getitem out ''Fluoride'' = [NumCol [NaN, NaN]])
   \<and> \<not> (\<forall>df d out. rename_and_drop df = Inr d
            \<longrightarrow> missing_from (FEATURES @ [TARGET]) d = []
            \<longrightarrow> preprocess_dataframe df True = Inr out
            \<longrightarrow> (\<forall>c\<in>set (FEATURES @ [TARGET]). \<not> list_ex isna (cells out c)))"
proof -
  have m: "missing_from (FEATURES @ [TARGET]) all_missing_dropped = []"
    by (simp add: missing_from_def FEATURES_def TARGET_def columns_def all_missing_dropped_def
        no_fluoride_dropped_def)
  from preprocess_training_columns[OF rename_and_drop_all_missing m] obtain out where
    o: "preprocess_dataframe all_missing_example True = Inr out"
      "\<forall>c\<in>set (FEATURES @ [TARGET]). getitem out c = [NumCol (imputed (cells all_missing_dropped c))]"
    by blast
  have "cells all_missing_dropped ''Fluoride'' = [NaN, NaN]"
    by (simp add: cells_def getitem_def all_missing_dropped_def no_fluoride_dropped_def)
  moreover have "imputed [NaN, NaN] = [NaN, NaN]"
    by (simp add: imputed_def fillna_def median_def isna_def sort_num_def)
  ultimately have g: "getitem out ''Fluoride'' = [NumCol [NaN, NaN]]"
    using o(2) by (simp add: FEATURES_def)
  then have c: "list_ex isna (cells out ''Fluoride'')" by (simp add: cells_def isna_def)
  have "\<not> (\<forall>df d out. rename_and_drop df = Inr d
            \<longrightarrow> missing_from (FEATURES @ [TARGET]) d = []
            \<longrightarrow> preprocess_dataframe df True = Inr out
            \<longrightarrow> (\<forall>c\<in>set (FEATURES @ [TARGET]). \<not> list_ex isna (cells out c)))"
  proof
    assume "\<forall>df d out. rename_and_drop df = Inr d
            \<longrightarrow> missing_from (FEATURES @ [TARGET]) d = []
            \<longrightarrow> preprocess_dataframe df True = Inr out
            \<longrightarrow> (\<forall>c\<in>set (FEATURES @ [TARGET]). \<not> list_ex isna (cells out c))"
    with rename_and_drop_all_missing m o(1)
    have "\<forall>c\<in>set (FEATURES @ [TARGET]). \<not> list_ex isna (cells out c)" by blast
    then have "\<not> list_ex isna (cells out ''Fluoride'')" by (simp add: FEATURES_def)
    with c show False by simp
  qed
  moreover have "\<exists>out. preprocess_dataframe all_missing_example True = Inr out
          \<and> getitem out ''Fluoride'' = [NumCol [NaN, NaN]]"
    using o(1) g by (intro exI[of _ out]) simp
  ultimately show ?thesis
    using rename_and_drop_all_missing m by (intro conjI)
qed

lemma imputed_all_missing:
  assumes "\<forall>x\<in>set xs. x = NaN"
  shows "imputed xs = xs"
proof -
  have "filter (\<lambda>x. \<not> isna x) xs = []"
    using assms by (simp add: filter_empty_conv isna_def)
  then have "median xs = NaN" by (simp add: median_def sort_num_def)
  moreover have "fillna NaN xs = xs"
    by (simp add: fillna_def isna_def map_idI)
  ultimately show ?thesis by (simp add: imputed_def)
qed

text \<open>
  Claim C5, amended. Under pandas before 3.0, where the chained in-place fill of the source
  reaches the frame (the behaviour modelled here; under copy-on-write it does not, and
  nothing is imputed): for every table whose frame after renaming and dropping has the
  eight canonical columns and the target, the feature engineer in training mode returns a
  frame in which each of these columns is the column after the drops with its missing
  entries replaced by its own median; a column without a missing entry is unchanged; the
  column has no NaN left whenever that median is not NaN, in particular whenever the column
  has a value and no infinite one; and a column in which every value is missing is returned
  as it is.
\<close>

theorem preprocess_imputes_median:
  assumes "rename_and_drop df = Inr d" and "missing_from (FEATURES @ [TARGET]) d = []"
  shows "\<exists>out. preprocess_dataframe df True = Inr out
           \<and> (\<forall>c\<in>set (FEATURES @ [TARGET]).
                 getitem out c =
                   [NumCol (if list_ex isna (cells d c)
                            then fillna (median (cells d c)) (cells d c) else cells d c)]
                 \<and> (median (cells d c) \<noteq> NaN \<longrightarrow> \<not> list_ex isna (cells out c))
                 \<and> ((\<exists>x\<in>set (cells d c). x \<noteq> NaN)
                      \<and> (\<forall>x\<in>set (cells d c). x \<noteq> PInf \<and> x \<noteq> NInf)
                      \<longrightarrow> \<not> list_ex isna (cells out c))
                 \<and> ((\<forall>x\<in>set (cells d c). x = NaN) \<longrightarrow> cells out c = cells d c))"
proof -
  from preprocess_training_columns[OF assms] obtain out where
    o: "preprocess_dataframe df True = Inr out"
      "\<forall>c\<in>set (FEATURES @ [TARGET]). getitem out c = [NumCol (imputed (cells d c))]"
    by blast
  have "getitem out c =
          [NumCol (if list_ex isna (cells d c)
                   then fillna (median (cells d c)) (cells d c) else cells d c)]
        \<and> (median (cells d c) \<noteq> NaN \<longrightarrow> \<not> list_ex isna (cells out c))
        \<and> ((\<exists>x\<in>set (cells d c). x \<noteq> NaN)
              \<and> (\<forall>x\<in>set (cells d c). x \<noteq> PInf \<and> x \<noteq> NInf)
              \<longrightarrow> \<not> list_ex isna (cells out c))
        \<and> ((\<forall>x\<in>set (cells d c). x = NaN) \<longrightarrow> cells out c = cells d c)"
    if c: "c \<in> set (FEATURES @ [TARGET])" for c
  proof -
    have g: "getitem out c = [NumCol (imputed (cells d c))]" using o(2) c by blast
    then have co: "cells out c = imputed (cells d c)" by (simp add: cells_def)
    have 1: "\<not> list_ex isna (cells out c)" if "median (cells d c) \<noteq> NaN"
      using that co by (simp add: imputed_no_nan)
    have 2: "\<not> list_ex isna (cells out c)"
      if "(\<exists>x\<in>set (cells d c). x \<noteq> NaN) \<and> (\<forall>x\<in>set (cells d c). x \<noteq> PInf \<and> x \<noteq> NInf)"
      using that median_finite[of "cells d c"] 1 by blast
    have 3: "cells out c = cells d c" if "\<forall>x\<in>set (cells d c). x = NaN"
      using that co by (simp add: imputed_all_missing)
    from g 1 2 3 show ?thesis by (simp add: imputed_def)
  qed
  with o(1) show ?thesis by blast
qed

theorem preprocess_imputes_median_witness:
  "(\<exists>out. preprocess_dataframe complete_example True = Inr out
      \<and> getitem out ''Temp'' = [NumCol [Fin 20, Fin 22]]
      \<and> getitem out ''pH'' = [NumCol [Fin 7, Fin 7]]
      \<and> getitem out ''Fluoride'' = [NumCol [Fin (1 / 2), Fin (1 / 2)]]
      \<and> getitem out ''WQI'' = [NumCol [Fin 30, Fin 80]]
      \<and> \<not> list_ex isna (cells out ''pH'')
      \<and> \<not> list_ex isna (cells out ''Fluoride''))
   \<and> (\<exists>out. preprocess_dataframe all_missing_example True = Inr out
      \<and> cells out ''Fluoride'' = [NaN, NaN])"
proof -
  have m: "missing_from (FEATURES @ [TARGET]) complete_dropped = []"
    by (simp add: missing_from_def FEATURES_def TARGET_def columns_def complete_dropped_def
        no_fluoride_dropped_def)
  have c: "cells complete_dropped ''Temp'' = [Fin 20, Fin 22]"
    "cells complete_dropped ''pH'' = [Fin 7, NaN]"
    "cells complete_dropped ''Fluoride'' = [Fin (1 / 2), NaN]"
    "cells complete_dropped ''WQI'' = [Fin 30, Fin 80]"
    by (simp_all add: cells_def getitem_def complete_dropped_def no_fluoride_dropped_def)
  have md: "median [Fin 7, NaN] = Fin 7" "median [Fin (1 / 2), NaN] = Fin (1 / 2)"
    by (simp_all add: median_def isna_def sort_num_def)
  from preprocess_imputes_median[OF rename_and_drop_complete m] obtain out where
    o: "preprocess_dataframe complete_example True = Inr out"
      "\<forall>c\<in>set (FEATURES @ [TARGET]).
          getitem out c =
            [NumCol (if list_ex isna (cells complete_dropped c)
                     then fillna (median (cells complete_dropped c)) (cells complete_dropped c)
                     else cells complete_dropped c)]
          \<and> (median (cells complete_dropped c) \<noteq> NaN \<longrightarrow> \<not> list_ex isna (cells out c))
          \<and> ((\<exists>x\<in>set (cells complete_dropped c). x \<noteq> NaN)
               \<and> (\<forall>x\<in>set (cells complete_dropped c). x \<noteq> PInf \<and> x \<noteq> NInf)
               \<longrightarrow> \<not> list_ex isna (cells out c))
          \<and> ((\<forall>x\<in>set (cells complete_dropped c). x = NaN)
               \<longrightarrow> cells out c = cells complete_dropped c)"
    by blast
  have mem: "''Temp'' \<in> set (FEATURES @ [TARGET])" "''pH'' \<in> set (FEATURES @ [TARGET])"
    "''Fluoride'' \<in> set (FEATURES @ [TARGET])" "''WQI'' \<in> set (FEATURES @ [TARGET])"
    by (simp_all add: FEATURES_def TARGET_def)
  have t: "getitem out ''Temp'' = [NumCol [Fin 20, Fin 22]]"
    using bspec[OF o(2) mem(1)] by (simp add: c isna_def)
  have p: "getitem out ''pH'' = [NumCol [Fin 7, Fin 7]]"
    using bspec[OF o(2) mem(2)] by (simp add: c md fillna_def isna_def)
  have f: "getitem out ''Fluoride'' = [NumCol [Fin (1 / 2), Fin (1 / 2)]]"
    using bspec[OF o(2) mem(3)] by (simp add: c md fillna_def isna_def)
  have w: "getitem out ''WQI'' = [NumCol [Fin 30, Fin 80]]"
    using bspec[OF o(2) mem(4)] by (simp add: c isna_def)
  have "\<not> list_ex isna (cells out ''pH'')" "\<not> list_ex isna (cells out ''Fluoride'')"
    using p f by (simp_all add: cells_def isna_def)
  with o(1) t p f w have first:
    "\<exists>out. preprocess_dataframe complete_example True = Inr out
      \<and> getitem out ''Temp'' = [NumCol [Fin 20, Fin 22]]
      \<and> getitem out ''pH'' = [NumCol [Fin 7, Fin 7]]
      \<and> getitem out ''Fluoride'' = [NumCol [Fin (1 / 2), Fin (1 / 2)]]
      \<and> getitem out ''WQI'' = [NumCol [Fin 30, Fin 80]]
      \<and> \<not> list_ex isna (cells out ''pH'')
      \<and> \<not> list_ex isna (cells out ''Fluoride'')"
    by blast
  have m2: "missing_from (FEATURES @ [TARGET]) all_missing_dropped = []"
    by (simp add: missing_from_def FEATURES_def TARGET_def columns_def all_missing_dropped_def
        no_fluoride_dropped_def)
  have c2: "cells all_missing_dropped ''Fluoride'' = [NaN, NaN]"
    by (simp add: cells_def getitem_def all_missing_dropped_def no_fluoride_dropped_def)
  from preprocess_imputes_median[OF rename_and_drop_all_missing m2] obtain out2 where
    o2: "preprocess_dataframe all_missing_example True = Inr out2"
      "\<forall>c\<in>set (FEATURES @ [TARGET]).
          (\<forall>x\<in>set (cells all_missing_dropped c). x = NaN)
            \<longrightarrow> cells out2 c = cells all_missing_dropped c"
    by blast
  have "cells out2 ''Fluoride'' = [NaN, NaN]"
    using bspec[OF o2(2) mem(3)] by (simp add: c2)
  with o2(1) have second:
    "\<exists>out. preprocess_dataframe all_missing_example True = Inr out
      \<and> cells out ''Fluoride'' = [NaN, NaN]"
    by blast
  from first second show ?thesis by (rule conjI)
qed

section \<open>Properties of the derived columns\<close>

















section \<open>Properties of the percentage error\<close>















end
